theory Spec2Isabelle
  imports Main "HOL-Library.Sublist"
begin

section \<open>HEIC to JPEG batch converter (heic\_converter.c)\<close>

text \<open>
  A shallow embedding of \<^verbatim>\<open>src/heic_converter.c\<close>. C strings are modelled as
  \<^typ>\<open>string\<close> (the bytes before the terminating NUL). The C library, libheif, libjpeg
  and the file system are not part of the program: every call into them is recorded as an
  event of a trace, and what the call answers is read from an environment, so that the
  theorems hold for every behaviour of those libraries.
\<close>

subsection \<open>C library string functions used by the program\<close>

text \<open>\<^verbatim>\<open>#define MAX_PATH 1024\<close> (line 24).\<close>

definition MAX_PATH :: nat where
  "MAX_PATH = 1024"

text \<open>
  The longest name \<^verbatim>\<open>readdir\<close> returns in \<^verbatim>\<open>d_name\<close>
  (\<^verbatim>\<open>NAME_MAX\<close> of \<^verbatim>\<open>limits.h\<close>, in bytes).
\<close>

definition NAME_MAX :: nat where
  "NAME_MAX = 255"

text \<open>
  \<^verbatim>\<open>strrchr(s, c)\<close>: a pointer to the last occurrence of \<open>c\<close> in \<open>s\<close>, that is the
  suffix of \<open>s\<close> that starts there, or NULL (\<open>None\<close>) when \<open>c\<close> does not occur.
\<close>

fun strrchr :: "string \<Rightarrow> char \<Rightarrow> string option" where
  "strrchr [] c = None"
| "strrchr (x # xs) c =
     (case strrchr xs c of
        Some r \<Rightarrow> Some r
      | None \<Rightarrow> if x = c then Some (x # xs) else None)"

text \<open>\<^verbatim>\<open>tolower\<close> in the C locale: only \<open>A\<close> .. \<open>Z\<close> (65 .. 90) change.\<close>

definition tolower :: "char \<Rightarrow> char" where
  "tolower c =
     (if 65 \<le> (of_char c :: nat) \<and> (of_char c :: nat) \<le> 90
      then char_of ((of_char c :: nat) + 32) else c)"

text \<open>
  \<^verbatim>\<open>strcasecmp(a, b)\<close> compares the two strings byte by byte after \<^verbatim>\<open>tolower\<close>.
  POSIX fixes only the sign of the result: it is given here as \<open>-1\<close>, \<open>0\<close> or \<open>1\<close>.
\<close>

fun strcasecmp :: "string \<Rightarrow> string \<Rightarrow> int" where
  "strcasecmp [] [] = 0"
| "strcasecmp [] (y # ys) = - 1"
| "strcasecmp (x # xs) [] = 1"
| "strcasecmp (x # xs) (y # ys) =
     (if tolower x = tolower y then strcasecmp xs ys
      else if (of_char (tolower x) :: nat) < of_char (tolower y) then - 1 else 1)"

text \<open>
  \<^verbatim>\<open>snprintf(buf, n, ...)\<close> stores at most \<open>n - 1\<close> bytes of the formatted text
  (and the NUL); the argument is the text already formatted.
\<close>

definition snprintf :: "nat \<Rightarrow> string \<Rightarrow> string" where
  "snprintf n formatted = take (n - 1) formatted"

text \<open>
  The conversion of a pointer difference to \<^verbatim>\<open>int\<close> (32 bits, two's complement),
  as in \<^verbatim>\<open>(int)(strrchr(base_name, '.') - base_name)\<close>.
\<close>

definition int_cast :: "int \<Rightarrow> int" where
  "int_cast n = (n + 2147483648) mod 4294967296 - 2147483648"

text \<open>
  What \<^verbatim>\<open>scanf("%d", &jpeg_quality)\<close> stores for the decimal number it reads. The C
  libraries of the platforms of the program convert the digits with \<^verbatim>\<open>strtol\<close> into a
  \<^verbatim>\<open>long\<close> of 64 bits, which saturates, and store the result into the \<^verbatim>\<open>int\<close> of
  32 bits by truncation: a number that fits in \<^verbatim>\<open>int\<close> is stored as it is, and
  4294967297 is stored as 1.
\<close>

definition scanf_stores :: "int \<Rightarrow> int" where
  "scanf_stores typed =
     int_cast (max (- 9223372036854775808) (min 9223372036854775807 typed))"

text \<open>
  \<^verbatim>\<open>%.*s\<close> with precision \<open>p\<close>: at most \<open>p\<close> bytes of the string; a negative
  precision is taken as if it were omitted.
\<close>

definition printf_precision_s :: "int \<Rightarrow> string \<Rightarrow> string" where
  "printf_precision_s p s = (if p < 0 then s else take (nat p) s)"

text \<open>\<^verbatim>\<open>%d\<close>: decimal digits, with a minus sign for a negative number.\<close>

fun show_nat :: "nat \<Rightarrow> string" where
  "show_nat n =
     (if n < 10 then [char_of (48 + n)]
      else show_nat (n div 10) @ [char_of (48 + n mod 10)])"

declare show_nat.simps [simp del]

definition show_int :: "int \<Rightarrow> string" where
  "show_int i = (if i < 0 then CHR ''-'' # show_nat (nat (- i)) else show_nat (nat i))"

subsection \<open>\<^verbatim>\<open>has_heic_extension\<close> (lines 35--39)\<close>

definition has_heic_extension :: "string \<Rightarrow> bool" where
  "has_heic_extension filename =
     (case strrchr filename (CHR ''.'') of
        None \<Rightarrow> False
      | Some ext \<Rightarrow> strcasecmp ext ''.HEIC'' = 0)"

subsection \<open>The libraries and the file system: calls, events, outcomes\<close>

text \<open>
  The calls the program makes into libjpeg, libheif and the C library. \<^verbatim>\<open>printf\<close> and
  \<^verbatim>\<open>fprintf(stderr, ...)\<close> are events of their own.
\<close>

datatype lib_call =
    Jpeg_std_error
  | Jpeg_create_compress
  | Heif_context_alloc
  | Heif_context_read_from_file string
  | Heif_context_get_primary_image_handle
  | Heif_decode_image
  | Heif_image_get_plane_readonly
  | Fopen string
  | Jpeg_stdio_dest
  | Heif_image_get_width
  | Heif_image_get_height
  | Jpeg_set_defaults
  | Jpeg_set_quality int
  | Jpeg_start_compress
  | Jpeg_write_scanlines nat
  | Jpeg_finish_compress
  | Fclose
  | Heif_image_release
  | Heif_image_handle_release
  | Heif_context_free
  | Jpeg_destroy_compress
  | Scanf
  | Stat string
  | Mkdir string nat
  | Opendir string
  | Readdir
  | Closedir

text \<open>
  An event of the trace. \<open>Call c ok\<close>: the program called \<open>c\<close>; \<open>ok\<close> tells that the call
  reported success (a non-NULL pointer, \<^verbatim>\<open>heif_error_Ok\<close>, 0 from \<^verbatim>\<open>stat\<close>,
  \<^verbatim>\<open>mkdir\<close> and \<^verbatim>\<open>closedir\<close>, one item from \<^verbatim>\<open>scanf\<close>, an entry from
  \<^verbatim>\<open>readdir\<close>); for a libjpeg call it tells that the call returned to the program.
  \<open>Enter_convert\<close> marks an entry into \<^verbatim>\<open>convert_heic_to_jpg\<close> with its arguments.
\<close>

datatype event =
    Enter_convert string string int
  | Call lib_call bool
  | Stderr string
  | Stdout string

text \<open>
  How control leaves a function. The program installs the error manager of
  \<^verbatim>\<open>jpeg_std_error\<close> (line 79) and never replaces its \<^verbatim>\<open>error_exit\<close>: a libjpeg call
  that meets a fatal error does not return to its caller, the library ends the process
  (\<open>Error_exit\<close>). \<open>Undefined_behaviour\<close>: the C standard gives the execution no meaning
  from here on.
\<close>

datatype 'a outcome = Return 'a | Error_exit | Undefined_behaviour

text \<open>
  What the libraries answer during one call of \<^verbatim>\<open>convert_heic_to_jpg\<close>.
  \<open>image_height\<close> is the value stored in \<^verbatim>\<open>cinfo.image_height\<close> (line 128).
\<close>

record job_env =
  heif_context_alloc :: bool
  heif_context_read_from_file :: bool
  heif_context_get_primary_image_handle :: bool
  heif_decode_image :: bool
  image_height :: nat
  fopen :: "string \<Rightarrow> bool"
  jpeg_returns :: "lib_call \<Rightarrow> bool"

datatype file_type = Regular_file | Directory | Other_file

text \<open>
  What standard input, the file system and the libraries answer during one run of
  \<^verbatim>\<open>main\<close>. \<open>scanf\<close>: the decimal number \<^verbatim>\<open>scanf("%d", ...)\<close> reads, if any.
  \<open>stat\<close>: the type of the entry at a path, if \<^verbatim>\<open>stat\<close> returns 0 there.
  \<open>opendir\<close>: the names \<^verbatim>\<open>readdir\<close> will return, in order, if the directory opens.
  \<open>job\<close>: the answers during the conversion of the given input path.
\<close>

record world =
  scanf :: "int option"
  stat :: "string \<Rightarrow> file_type option"
  mkdir :: "string \<Rightarrow> nat \<Rightarrow> bool"
  opendir :: "string \<Rightarrow> string list option"
  closedir :: bool
  strerror_errno :: string
  job :: "string \<Rightarrow> job_env"

subsection \<open>\<^verbatim>\<open>ensure_directory\<close> (lines 41--45)\<close>

text \<open>Mode \<^verbatim>\<open>0755\<close> is 493.\<close>

definition ensure_directory :: "world \<Rightarrow> string \<Rightarrow> event list \<times> bool" where
  "ensure_directory w path =
     (case stat w path of
        Some st \<Rightarrow> ([Call (Stat path) True], True)
      | None \<Rightarrow>
          ([Call (Stat path) False, Call (Mkdir path 493) (mkdir w path 493)],
           mkdir w path 493))"

subsection \<open>\<^verbatim>\<open>ConversionContext\<close> and \<^verbatim>\<open>cleanup_context\<close> (lines 26--33, 47--71)\<close>

text \<open>
  Each pointer field is modelled by whether it is non-NULL. \<^verbatim>\<open>cinfo\<close> and \<^verbatim>\<open>jerr\<close>
  are structs inside the context; what the program reads of them
  (\<^verbatim>\<open>next_scanline\<close>, \<^verbatim>\<open>image_height\<close>) is carried by the scanline loop.
\<close>

record ConversionContext =
  ctx :: bool
  handle :: bool
  img :: bool
  outfile :: bool

fun cleanup_context :: "ConversionContext option \<Rightarrow> ConversionContext option \<times> event list" where
  "cleanup_context None = (None, [])"
| "cleanup_context (Some c) =
     (Some (c\<lparr>outfile := False, img := False, handle := False, ctx := False\<rparr>),
      (if outfile c then [Call Fclose True] else []) @
      (if img c then [Call Heif_image_release True] else []) @
      (if handle c then [Call Heif_image_handle_release True] else []) @
      (if ctx c then [Call Heif_context_free True] else []) @
      [Call Jpeg_destroy_compress True])"

subsection \<open>\<^verbatim>\<open>convert_heic_to_jpg\<close> (lines 73--148)\<close>

text \<open>Lines 113--114: the part of the input path after its last slash.\<close>

definition base_name_of :: "string \<Rightarrow> string" where
  "base_name_of input_path =
     (case strrchr input_path (CHR ''/'') of
        Some r \<Rightarrow> tl r
      | None \<Rightarrow> input_path)"

text \<open>
  Lines 112--117. When the base name has no dot, \<^verbatim>\<open>strrchr\<close> returns NULL and the
  subtraction \<^verbatim>\<open>NULL - base_name\<close> is undefined (\<open>None\<close>).
\<close>

definition output_filename_of :: "string \<Rightarrow> string \<Rightarrow> string option" where
  "output_filename_of input_path output_dir =
     (let base_name = base_name_of input_path in
      case strrchr base_name (CHR ''.'') of
        None \<Rightarrow> None
      | Some ext \<Rightarrow>
          Some (snprintf MAX_PATH
            (output_dir @ ''/'' @
             printf_precision_s (int_cast (int (length base_name) - int (length ext))) base_name @
             ''.jpg'')))"

text \<open>
  Lines 137--140. \<^verbatim>\<open>jpeg_stdio_dest\<close> installs a destination that never suspends, so
  \<^verbatim>\<open>jpeg_write_scanlines\<close> with one row either writes it and advances
  \<^verbatim>\<open>next_scanline\<close> by one, or does not return. The result tells that the loop ran to
  its end.
\<close>

function write_scanlines :: "job_env \<Rightarrow> nat \<Rightarrow> nat \<Rightarrow> event list \<times> bool" where
  "write_scanlines e next_scanline height =
     (if next_scanline < height then
        (if jpeg_returns e (Jpeg_write_scanlines next_scanline) then
           (Call (Jpeg_write_scanlines next_scanline) True #
              fst (write_scanlines e (Suc next_scanline) height),
            snd (write_scanlines e (Suc next_scanline) height))
         else ([Call (Jpeg_write_scanlines next_scanline) False], False))
      else ([], True))"
  by pat_completeness auto
termination
  by (relation "measure (\<lambda>(e, next_scanline, height). height - next_scanline)") auto

declare write_scanlines.simps [simp del]

text \<open>A run of libjpeg calls: it stops at the first one that does not return.\<close>

fun jpeg_calls :: "job_env \<Rightarrow> lib_call list \<Rightarrow> event list \<times> bool" where
  "jpeg_calls e [] = ([], True)"
| "jpeg_calls e (c # cs) =
     (if jpeg_returns e c
      then (Call c True # fst (jpeg_calls e cs), snd (jpeg_calls e cs))
      else ([Call c False], False))"

text \<open>Lines 125--142: the encoder. The result tells that every call returned.\<close>

definition encode :: "job_env \<Rightarrow> int \<Rightarrow> event list \<times> bool" where
  "encode e jpeg_quality =
     (let (t1, r1) = jpeg_calls e [Jpeg_stdio_dest] in
      if \<not> r1 then (t1, False)
      else
        let t2 = t1 @ [Call Heif_image_get_width True, Call Heif_image_get_height True];
            (t3, r3) = jpeg_calls e
               [Jpeg_set_defaults, Jpeg_set_quality jpeg_quality, Jpeg_start_compress]
        in
        if \<not> r3 then (t2 @ t3, False)
        else
          let (t4, r4) = write_scanlines e 0 (image_height e) in
          if \<not> r4 then (t2 @ t3 @ t4, False)
          else
            let (t5, r5) = jpeg_calls e [Jpeg_finish_compress] in
            (t2 @ t3 @ t4 @ t5, r5))"

text \<open>Lines 145--147: the \<^verbatim>\<open>cleanup\<close> label.\<close>

definition cleanup_and_return ::
  "event list \<Rightarrow> ConversionContext \<Rightarrow> bool \<Rightarrow> event list \<times> bool outcome" where
  "cleanup_and_return t c success = (t @ snd (cleanup_context (Some c)), Return success)"

definition convert_heic_to_jpg ::
  "job_env \<Rightarrow> string \<Rightarrow> string \<Rightarrow> int \<Rightarrow> event list \<times> bool outcome" where
  "convert_heic_to_jpg e input_path output_dir jpeg_quality =
     (let c0 = \<lparr>ctx = False, handle = False, img = False, outfile = False\<rparr>;
          t0 = [Enter_convert input_path output_dir jpeg_quality, Call Jpeg_std_error True,
                Call Jpeg_create_compress (jpeg_returns e Jpeg_create_compress)]
      in
      if \<not> jpeg_returns e Jpeg_create_compress then (t0, Error_exit)
      else if \<not> heif_context_alloc e then
        cleanup_and_return
          (t0 @ [Call Heif_context_alloc False,
                 Stderr ''Failed to allocate HEIF context\<newline>'']) c0 False
      else
        let c1 = c0\<lparr>ctx := True\<rparr>;
            t1 = t0 @ [Call Heif_context_alloc True]
        in
        if \<not> heif_context_read_from_file e then
          cleanup_and_return
            (t1 @ [Call (Heif_context_read_from_file input_path) False,
                   Stderr (''Could not read HEIC file: '' @ input_path @ ''\<newline>'')]) c1 False
        else
          let t2 = t1 @ [Call (Heif_context_read_from_file input_path) True] in
          if \<not> heif_context_get_primary_image_handle e then
            cleanup_and_return
              (t2 @ [Call Heif_context_get_primary_image_handle False,
                     Stderr ''Could not get primary image handle\<newline>'']) c1 False
          else
            let c3 = c1\<lparr>handle := True\<rparr>;
                t3 = t2 @ [Call Heif_context_get_primary_image_handle True]
            in
            if \<not> heif_decode_image e then
              cleanup_and_return
                (t3 @ [Call Heif_decode_image False,
                       Stderr ''Could not decode image\<newline>'']) c3 False
            else
              let c4 = c3\<lparr>img := True\<rparr>;
                  t4 = t3 @ [Call Heif_decode_image True, Call Heif_image_get_plane_readonly True]
              in
              case output_filename_of input_path output_dir of
                None \<Rightarrow> (t4, Undefined_behaviour)
              | Some output_filename \<Rightarrow>
                  if \<not> fopen e output_filename then
                    cleanup_and_return
                      (t4 @ [Call (Fopen output_filename) False,
                             Stderr (''Could not create output file: '' @ output_filename @
                                     ''\<newline>'')]) c4 False
                  else
                    let c5 = c4\<lparr>outfile := True\<rparr>;
                        t5 = t4 @ [Call (Fopen output_filename) True];
                        (t6, r6) = encode e jpeg_quality
                    in
                    if \<not> r6 then (t5 @ t6, Error_exit)
                    else cleanup_and_return (t5 @ t6) c5 True)"

subsection \<open>\<^verbatim>\<open>main\<close> (lines 150--199)\<close>

text \<open>
  Lines 179--186, over the names \<^verbatim>\<open>readdir\<close> still has to return; the last argument
  is \<^verbatim>\<open>files_processed\<close>, which the loop returns when it ends.
\<close>

fun batch_loop :: "world \<Rightarrow> string list \<Rightarrow> int \<Rightarrow> nat \<Rightarrow> event list \<times> nat outcome" where
  "batch_loop w [] jpeg_quality files_processed = ([Call Readdir False], Return files_processed)"
| "batch_loop w (d_name # rest) jpeg_quality files_processed =
     (if has_heic_extension d_name then
        (let input_path = snprintf MAX_PATH (''Photos'' @ ''/'' @ d_name) in
         case convert_heic_to_jpg (job w input_path) input_path ''output'' jpeg_quality of
           (t, Return success) \<Rightarrow>
             (Call Readdir True # t @
                fst (batch_loop w rest jpeg_quality
                       (if success then files_processed + 1 else files_processed)),
              snd (batch_loop w rest jpeg_quality
                       (if success then files_processed + 1 else files_processed)))
         | (t, Error_exit) \<Rightarrow> (Call Readdir True # t, Error_exit)
         | (t, Undefined_behaviour) \<Rightarrow> (Call Readdir True # t, Undefined_behaviour))
      else
        (Call Readdir True # fst (batch_loop w rest jpeg_quality files_processed),
         snd (batch_loop w rest jpeg_quality files_processed)))"

definition main :: "world \<Rightarrow> event list \<times> int outcome" where
  "main w =
     (let t0 = [Stdout ''Enter JPEG quality (1-100, recommended 75-95): '',
                Call Scanf (scanf w \<noteq> None)];
          invalid = Stderr
            ''Invalid quality value. Please enter a number between 1 and 100.\<newline>''
      in
      case scanf w of
        None \<Rightarrow> (t0 @ [invalid], Return 1)
      | Some typed \<Rightarrow>
          let jpeg_quality = scanf_stores typed in
          if jpeg_quality < 1 \<or> jpeg_quality > 100 then (t0 @ [invalid], Return 1)
          else
            let t1 = t0 @ [Stdout (''Using JPEG quality: '' @ show_int jpeg_quality @
                                   ''\<newline>'')];
                (t2, ensured) = ensure_directory w ''output''
            in
            if \<not> ensured then
              (t1 @ t2 @ [Stderr ''Failed to create output directory\<newline>''], Return 1)
            else
              (case opendir w ''Photos'' of
                 None \<Rightarrow>
                   (t1 @ t2 @
                    [Call (Opendir ''Photos'') False,
                     Stderr (''Could not open Photos directory: '' @ strerror_errno w @
                             ''\<newline>'')],
                    Return 1)
               | Some entries \<Rightarrow>
                   let t3 = t1 @ t2 @
                         [Call (Opendir ''Photos'') True, Stdout ''Converting files...\<newline>'']
                   in
                   (case batch_loop w entries jpeg_quality 0 of
                      (t4, Error_exit) \<Rightarrow> (t3 @ t4, Error_exit)
                    | (t4, Undefined_behaviour) \<Rightarrow> (t3 @ t4, Undefined_behaviour)
                    | (t4, Return files_processed) \<Rightarrow>
                        let success = closedir w;
                            summary =
                              (if files_processed = 0
                               then ''No HEIC files found in the Photos directory.\<newline>''
                               else ''Successfully converted '' @
                                    show_int (int files_processed) @
                                    '' photos to JPEG format.\<newline>'')
                        in
                        (t3 @ t4 @ [Call Closedir (closedir w), Stdout summary],
                         Return (if success then 0 else 1)))))"

subsection \<open>Reading a trace\<close>

text \<open>The resources of one conversion, in the order the program acquires them.\<close>

datatype resource =
  Jpeg_compress_state | Heif_context | Image_handle | Decoded_image | Output_file

text \<open>The call that hands a resource to the program, when it succeeds.\<close>

fun acquires :: "event \<Rightarrow> resource option" where
  "acquires (Call c ok) =
     (if \<not> ok then None
      else case c of
        Jpeg_create_compress \<Rightarrow> Some Jpeg_compress_state
      | Heif_context_alloc \<Rightarrow> Some Heif_context
      | Heif_context_get_primary_image_handle \<Rightarrow> Some Image_handle
      | Heif_decode_image \<Rightarrow> Some Decoded_image
      | Fopen path \<Rightarrow> Some Output_file
      | _ \<Rightarrow> None)"
| "acquires _ = None"

text \<open>The call that gives a resource back.\<close>

fun releases :: "event \<Rightarrow> resource option" where
  "releases (Call c ok) =
     (case c of
        Jpeg_destroy_compress \<Rightarrow> Some Jpeg_compress_state
      | Heif_context_free \<Rightarrow> Some Heif_context
      | Heif_image_handle_release \<Rightarrow> Some Image_handle
      | Heif_image_release \<Rightarrow> Some Decoded_image
      | Fclose \<Rightarrow> Some Output_file
      | _ \<Rightarrow> None)"
| "releases _ = None"

definition acquired :: "event list \<Rightarrow> resource list" where
  "acquired t = List.map_filter acquires t"

definition released :: "event list \<Rightarrow> resource list" where
  "released t = List.map_filter releases t"

text \<open>
  The steps of a conversion that the specification names: context allocation, container
  read, primary image handle, decode, output file open, scanline encoding, finish.
\<close>

fun is_step :: "lib_call \<Rightarrow> bool" where
  "is_step Heif_context_alloc = True"
| "is_step (Heif_context_read_from_file path) = True"
| "is_step Heif_context_get_primary_image_handle = True"
| "is_step Heif_decode_image = True"
| "is_step (Fopen path) = True"
| "is_step (Jpeg_write_scanlines row) = True"
| "is_step Jpeg_finish_compress = True"
| "is_step _ = False"

fun step_of :: "event \<Rightarrow> (lib_call \<times> bool) option" where
  "step_of (Call c ok) = (if is_step c then Some (c, ok) else None)"
| "step_of _ = None"

text \<open>The steps a trace executed, each with its result, in order.\<close>

definition steps :: "event list \<Rightarrow> (lib_call \<times> bool) list" where
  "steps t = List.map_filter step_of t"

text \<open>A sequence of steps run up to and including the first one that fails.\<close>

fun upto_first_failure :: "('a \<times> bool) list \<Rightarrow> ('a \<times> bool) list" where
  "upto_first_failure [] = []"
| "upto_first_failure ((c, ok) # rest) =
     (if ok then (c, ok) # upto_first_failure rest else [(c, ok)])"

text \<open>The calls that open, write or close the output file.\<close>

fun touches_output :: "event \<Rightarrow> bool" where
  "touches_output (Call c ok) =
     (case c of
        Fopen path \<Rightarrow> True
      | Jpeg_stdio_dest \<Rightarrow> True
      | Jpeg_start_compress \<Rightarrow> True
      | Jpeg_write_scanlines row \<Rightarrow> True
      | Jpeg_finish_compress \<Rightarrow> True
      | Fclose \<Rightarrow> True
      | _ \<Rightarrow> False)"
| "touches_output _ = False"

text \<open>The input paths of the conversions a trace started, in order.\<close>

fun entered :: "event \<Rightarrow> string option" where
  "entered (Enter_convert input_path output_dir jpeg_quality) = Some input_path"
| "entered _ = None"

definition jobs_of :: "event list \<Rightarrow> string list" where
  "jobs_of t = List.map_filter entered t"

text \<open>What a trace wrote to the error stream and to standard output.\<close>

fun stderr_of :: "event \<Rightarrow> string option" where
  "stderr_of (Stderr s) = Some s"
| "stderr_of _ = None"

definition stderr_lines :: "event list \<Rightarrow> string list" where
  "stderr_lines t = List.map_filter stderr_of t"

fun stdout_of :: "event \<Rightarrow> string option" where
  "stdout_of (Stdout s) = Some s"
| "stdout_of _ = None"

definition stdout_lines :: "event list \<Rightarrow> string list" where
  "stdout_lines t = List.map_filter stdout_of t"

text \<open>The calls of a trace that scan a directory or change the file system.\<close>

fun is_directory_call :: "event \<Rightarrow> bool" where
  "is_directory_call (Call c ok) =
     (case c of
        Stat path \<Rightarrow> True
      | Mkdir path mode \<Rightarrow> True
      | Opendir path \<Rightarrow> True
      | Readdir \<Rightarrow> True
      | Closedir \<Rightarrow> True
      | _ \<Rightarrow> False)"
| "is_directory_call _ = False"

text \<open>Every libjpeg call of the encoder (lines 125--142) returns.\<close>

definition encoder_returns :: "job_env \<Rightarrow> int \<Rightarrow> bool" where
  "encoder_returns e jpeg_quality \<longleftrightarrow>
     jpeg_returns e Jpeg_stdio_dest \<and>
     jpeg_returns e Jpeg_set_defaults \<and>
     jpeg_returns e (Jpeg_set_quality jpeg_quality) \<and>
     jpeg_returns e Jpeg_start_compress \<and>
     list_all (\<lambda>row. jpeg_returns e (Jpeg_write_scanlines row)) [0..<image_height e] \<and>
     jpeg_returns e Jpeg_finish_compress"

text \<open>
  Line 161 rejects the quality: \<^verbatim>\<open>scanf\<close> read no number, or the \<^verbatim>\<open>int\<close> it
  stored is outside \<open>[1, 100]\<close>.
\<close>

definition invalid_quality :: "world \<Rightarrow> bool" where
  "invalid_quality w =
     (case scanf w of
        None \<Rightarrow> True
      | Some typed \<Rightarrow> scanf_stores typed < 1 \<or> scanf_stores typed > 100)"

text \<open>A conversion comes back to its caller, with either result.\<close>

definition conversion_returns :: "job_env \<Rightarrow> string \<Rightarrow> string \<Rightarrow> int \<Rightarrow> bool" where
  "conversion_returns e input_path output_dir jpeg_quality =
     (case snd (convert_heic_to_jpg e input_path output_dir jpeg_quality) of
        Return success \<Rightarrow> True
      | Error_exit \<Rightarrow> False
      | Undefined_behaviour \<Rightarrow> False)"

subsection \<open>Concrete runs\<close>

text \<open>
  Environments for single conversions: one in which every call succeeds on an image of two
  rows, and one for each way a conversion can fail.
\<close>

definition job_ok :: job_env where
  "job_ok =
     \<lparr>heif_context_alloc = True, heif_context_read_from_file = True,
      heif_context_get_primary_image_handle = True, heif_decode_image = True,
      image_height = 2, fopen = (\<lambda>path. True), jpeg_returns = (\<lambda>c. True)\<rparr>"

definition job_unreadable :: job_env where
  "job_unreadable = job_ok\<lparr>heif_context_read_from_file := False\<rparr>"

definition job_no_primary :: job_env where
  "job_no_primary = job_ok\<lparr>heif_context_get_primary_image_handle := False\<rparr>"

definition job_decode_fails :: job_env where
  "job_decode_fails = job_ok\<lparr>heif_decode_image := False\<rparr>"

definition job_fopen_fails :: job_env where
  "job_fopen_fails = job_ok\<lparr>fopen := (\<lambda>path. False)\<rparr>"

text \<open>The write of the second row meets a fatal error (a full disk, say).\<close>

definition job_scanline_fails :: job_env where
  "job_scanline_fails = job_ok\<lparr>jpeg_returns := (\<lambda>c. c \<noteq> Jpeg_write_scanlines 1)\<rparr>"

text \<open>
  A run of the program: quality 85, \<^verbatim>\<open>output\<close> is a directory, \<^verbatim>\<open>Photos\<close> holds
  \<^verbatim>\<open>a.HEIC\<close>, \<^verbatim>\<open>b.heic\<close> and \<^verbatim>\<open>c.txt\<close>, every conversion succeeds.
\<close>

definition world_ok :: world where
  "world_ok =
     \<lparr>scanf = Some 85,
      stat = (\<lambda>path. if path = ''output'' then Some Directory else None),
      mkdir = (\<lambda>path mode. False),
      opendir = (\<lambda>path. if path = ''Photos'' then Some [''a.HEIC'', ''b.heic'', ''c.txt'']
                         else None),
      closedir = True,
      strerror_errno = ''No such file or directory'',
      job = (\<lambda>input_path. job_ok)\<rparr>"

text \<open>The quality typed is 0.\<close>

definition world_quality_0 :: world where
  "world_quality_0 = world_ok\<lparr>scanf := Some 0\<rparr>"

text \<open>\<^verbatim>\<open>Photos\<close> is empty and \<^verbatim>\<open>closedir\<close> fails.\<close>

definition world_closedir_fails :: world where
  "world_closedir_fails = world_ok\<lparr>opendir := (\<lambda>path. Some []), closedir := False\<rparr>"

text \<open>\<^verbatim>\<open>Photos\<close> holds the single file \<^verbatim>\<open>a.HEIC\<close>, which is not a HEIC container.\<close>

definition world_one_unreadable :: world where
  "world_one_unreadable =
     world_ok\<lparr>opendir := (\<lambda>path. Some [''a.HEIC'']), job := (\<lambda>input_path. job_unreadable)\<rparr>"

text \<open>\<^verbatim>\<open>a.HEIC\<close> has no primary image; \<^verbatim>\<open>b.heic\<close> converts.\<close>

definition world_no_primary :: world where
  "world_no_primary =
     world_ok\<lparr>opendir := (\<lambda>path. Some [''a.HEIC'', ''b.heic'']),
              job := (\<lambda>input_path. if input_path = ''Photos/a.HEIC'' then job_no_primary
                                   else job_ok)\<rparr>"

text \<open>\<^verbatim>\<open>output\<close> exists and is a regular file.\<close>

definition world_output_is_file :: world where
  "world_output_is_file =
     world_ok\<lparr>stat := (\<lambda>path. if path = ''output'' then Some Regular_file else None)\<rparr>"

text \<open>The quality typed is 4294967297, which does not fit in an \<^verbatim>\<open>int\<close>.\<close>

definition world_quality_wraps :: world where
  "world_quality_wraps = world_ok\<lparr>scanf := Some 4294967297\<rparr>"

text \<open>
  The listing of \<^verbatim>\<open>world_ok\<close>; the write of the second row of \<^verbatim>\<open>a.HEIC\<close> meets a
  fatal error.
\<close>

definition world_fatal_first :: world where
  "world_fatal_first =
     world_ok\<lparr>job := (\<lambda>input_path. if input_path = ''Photos/a.HEIC'' then job_scanline_fails
                                   else job_ok)\<rparr>"

section \<open>Properties\<close>

subsection \<open>String functions\<close>

lemma strrchr_None_iff: "strrchr s c = None \<longleftrightarrow> c \<notin> set s"
  by (induction s) (auto split: option.splits)

lemma strrchr_last_occurrence:
  assumes "c \<notin> set rest"
  shows "strrchr (pre @ c # rest) c = Some (c # rest)"
proof -
  from assms have "strrchr rest c = None"
    by (simp add: strrchr_None_iff)
  then show ?thesis
    by (induction pre) simp_all
qed

lemma strrchr_SomeD:
  "strrchr s c = Some r \<Longrightarrow> \<exists>pre rest. s = pre @ r \<and> r = c # rest \<and> c \<notin> set rest"
proof (induction s)
  case Nil
  then show ?case by simp
next
  case (Cons x xs)
  show ?case
  proof (cases "strrchr xs c")
    case None
    with Cons.prems have "x = c" and "r = x # xs"
      by (auto split: if_splits)
    moreover from None have "c \<notin> set xs"
      by (simp add: strrchr_None_iff)
    ultimately show ?thesis by auto
  next
    case (Some r')
    with Cons.prems have "r' = r" by simp
    with Some Cons.IH obtain pre rest where "xs = pre @ r" "r = c # rest" "c \<notin> set rest"
      by auto
    then have "x # xs = (x # pre) @ r" by simp
    with \<open>r = c # rest\<close> \<open>c \<notin> set rest\<close> show ?thesis by blast
  qed
qed

lemma strcasecmp_eq_0_iff: "strcasecmp a b = 0 \<longleftrightarrow> map tolower a = map tolower b"
  by (induction a b rule: strcasecmp.induct) auto

lemma tolower_HEIC: "map tolower ''.HEIC'' = ''.heic''"
  by (simp add: tolower_def char_of_eq_iff)

lemma tolower_dot: "tolower (CHR ''.'') = CHR ''.''"
  by (simp add: tolower_def)

lemma lower_heic_no_dot:
  assumes "map tolower ext = ''heic''"
  shows "CHR ''.'' \<notin> set ext"
proof
  assume "CHR ''.'' \<in> set ext"
  then have "tolower (CHR ''.'') \<in> set (map tolower ext)"
    by simp
  then have "CHR ''.'' \<in> set ''heic''"
    by (simp only: tolower_dot assms)
  then show False
    by simp
qed

lemma has_heic_extension_iff:
  "has_heic_extension f \<longleftrightarrow> (\<exists>stem ext. f = stem @ CHR ''.'' # ext \<and> map tolower ext = ''heic'')"
proof
  assume "has_heic_extension f"
  then obtain r where r: "strrchr f (CHR ''.'') = Some r" and "strcasecmp r ''.HEIC'' = 0"
    by (auto simp: has_heic_extension_def split: option.splits)
  then have low: "map tolower r = ''.heic''"
    by (simp only: strcasecmp_eq_0_iff tolower_HEIC)
  from strrchr_SomeD [OF r] obtain pre rest where f: "f = pre @ r" and rest: "r = CHR ''.'' # rest"
    by blast
  from low have "map tolower rest = ''heic''"
    by (simp add: rest)
  with f rest have "f = pre @ CHR ''.'' # rest \<and> map tolower rest = ''heic''"
    by simp
  then show "\<exists>stem ext. f = stem @ CHR ''.'' # ext \<and> map tolower ext = ''heic''"
    by (intro exI)
next
  assume "\<exists>stem ext. f = stem @ CHR ''.'' # ext \<and> map tolower ext = ''heic''"
  then obtain stem ext where f: "f = stem @ CHR ''.'' # ext" and low: "map tolower ext = ''heic''"
    by (elim exE conjE)
  from low have "CHR ''.'' \<notin> set ext"
    by (rule lower_heic_no_dot)
  then have "strrchr f (CHR ''.'') = Some (CHR ''.'' # ext)"
    unfolding f by (rule strrchr_last_occurrence)
  moreover have "map tolower (CHR ''.'' # ext) = map tolower ''.HEIC''"
    by (simp only: tolower_HEIC) (simp only: list.map tolower_dot low)
  ultimately show "has_heic_extension f"
    by (simp only: has_heic_extension_def strcasecmp_eq_0_iff option.case)
qed

subsection \<open>Traces\<close>

lemma map_filter_append: "List.map_filter f (xs @ ys) = List.map_filter f xs @ List.map_filter f ys"
  by (simp add: List.map_filter_def)

lemma acquired_simps [simp]:
  "acquired [] = []"
  "acquired (ev # t) = (case acquires ev of None \<Rightarrow> acquired t | Some r \<Rightarrow> r # acquired t)"
  "acquired (t @ t') = acquired t @ acquired t'"
  by (simp_all add: acquired_def map_filter_append split: option.splits)

lemma released_simps [simp]:
  "released [] = []"
  "released (ev # t) = (case releases ev of None \<Rightarrow> released t | Some r \<Rightarrow> r # released t)"
  "released (t @ t') = released t @ released t'"
  by (simp_all add: released_def map_filter_append split: option.splits)

lemma steps_simps [simp]:
  "steps [] = []"
  "steps (ev # t) = (case step_of ev of None \<Rightarrow> steps t | Some r \<Rightarrow> r # steps t)"
  "steps (t @ t') = steps t @ steps t'"
  by (simp_all add: steps_def map_filter_append split: option.splits)

lemma jobs_of_simps [simp]:
  "jobs_of [] = []"
  "jobs_of (ev # t) = (case entered ev of None \<Rightarrow> jobs_of t | Some r \<Rightarrow> r # jobs_of t)"
  "jobs_of (t @ t') = jobs_of t @ jobs_of t'"
  by (simp_all add: jobs_of_def map_filter_append split: option.splits)

lemma stderr_lines_simps [simp]:
  "stderr_lines [] = []"
  "stderr_lines (ev # t) = (case stderr_of ev of None \<Rightarrow> stderr_lines t | Some r \<Rightarrow> r # stderr_lines t)"
  "stderr_lines (t @ t') = stderr_lines t @ stderr_lines t'"
  by (simp_all add: stderr_lines_def map_filter_append split: option.splits)

lemma stdout_lines_simps [simp]:
  "stdout_lines [] = []"
  "stdout_lines (ev # t) = (case stdout_of ev of None \<Rightarrow> stdout_lines t | Some r \<Rightarrow> r # stdout_lines t)"
  "stdout_lines (t @ t') = stdout_lines t @ stdout_lines t'"
  by (simp_all add: stdout_lines_def map_filter_append split: option.splits)

subsection \<open>The encoder\<close>

lemma write_scanlines_returns_iff:
  "snd (write_scanlines e n h) \<longleftrightarrow> (\<forall>row. n \<le> row \<and> row < h \<longrightarrow> jpeg_returns e (Jpeg_write_scanlines row))"
proof (induction e n h rule: write_scanlines.induct)
  case (1 e n h)
  show ?case
  proof (cases "n < h \<and> jpeg_returns e (Jpeg_write_scanlines n)")
    case True
    then have "snd (write_scanlines e n h) = snd (write_scanlines e (Suc n) h)"
      by (simp add: write_scanlines.simps [of e n h])
    also have "\<dots> \<longleftrightarrow> (\<forall>row. Suc n \<le> row \<and> row < h \<longrightarrow> jpeg_returns e (Jpeg_write_scanlines row))"
      using True by (intro "1.IH") simp_all
    also have "\<dots> \<longleftrightarrow> (\<forall>row. n \<le> row \<and> row < h \<longrightarrow> jpeg_returns e (Jpeg_write_scanlines row))"
      using True by (metis Suc_leI le_neq_implies_less Suc_le_lessD less_imp_le_nat)
    finally show ?thesis .
  next
    case False
    then show ?thesis
      by (auto simp: write_scanlines.simps [of e n h])
  qed
qed

lemma write_scanlines_trace:
  "acquired (fst (write_scanlines e n h)) = [] \<and> released (fst (write_scanlines e n h)) = []
   \<and> jobs_of (fst (write_scanlines e n h)) = [] \<and> stderr_lines (fst (write_scanlines e n h)) = []"
proof (induction e n h rule: write_scanlines.induct)
  case (1 e n h)
  then show ?case
    by (simp add: write_scanlines.simps [of e n h])
qed

lemma jpeg_calls_returns_iff: "snd (jpeg_calls e cs) \<longleftrightarrow> list_all (jpeg_returns e) cs"
  by (induction cs) simp_all

lemma encode_returns_iff: "snd (encode e q) \<longleftrightarrow> encoder_returns e q"
  by (auto simp: encode_def encoder_returns_def Let_def split_beta write_scanlines_returns_iff
      list_all_iff)

lemma encode_trace:
  "acquired (fst (encode e q)) = [] \<and> released (fst (encode e q)) = []
   \<and> jobs_of (fst (encode e q)) = [] \<and> stderr_lines (fst (encode e q)) = []"
  by (simp add: encode_def Let_def split_beta write_scanlines_trace)

subsection \<open>The paths through \<^verbatim>\<open>convert_heic_to_jpg\<close>\<close>

text \<open>
  The nine ways through \<^verbatim>\<open>convert_heic_to_jpg\<close>, each with its trace: the events before
  the \<^verbatim>\<open>cleanup\<close> label, then those of \<^verbatim>\<open>cleanup_context\<close>.
\<close>

lemma convert_cases [case_names create_fail alloc_fail read_fail handle_fail decode_fail
    no_dot fopen_fail encoder_fail success]:
  obtains
    (create_fail) "\<not> jpeg_returns e Jpeg_create_compress"
    and "convert_heic_to_jpg e p d q =
      ([Enter_convert p d q,
        Call Jpeg_std_error True,
        Call Jpeg_create_compress False], Error_exit)"
  | (alloc_fail) "jpeg_returns e Jpeg_create_compress"
    and "\<not> heif_context_alloc e"
    and "convert_heic_to_jpg e p d q =
      ([Enter_convert p d q,
        Call Jpeg_std_error True,
        Call Jpeg_create_compress True,
        Call Heif_context_alloc False,
        Stderr ''Failed to allocate HEIF context\<newline>''] @
       [Call Jpeg_destroy_compress True], Return False)"
  | (read_fail) "jpeg_returns e Jpeg_create_compress"
    and "heif_context_alloc e"
    and "\<not> heif_context_read_from_file e"
    and "convert_heic_to_jpg e p d q =
      ([Enter_convert p d q,
        Call Jpeg_std_error True,
        Call Jpeg_create_compress True,
        Call Heif_context_alloc True,
        Call (Heif_context_read_from_file p) False,
        Stderr (''Could not read HEIC file: '' @ p @ ''\<newline>'')] @
       [Call Heif_context_free True,
        Call Jpeg_destroy_compress True], Return False)"
  | (handle_fail) "jpeg_returns e Jpeg_create_compress"
    and "heif_context_alloc e"
    and "heif_context_read_from_file e"
    and "\<not> heif_context_get_primary_image_handle e"
    and "convert_heic_to_jpg e p d q =
      ([Enter_convert p d q,
        Call Jpeg_std_error True,
        Call Jpeg_create_compress True,
        Call Heif_context_alloc True,
        Call (Heif_context_read_from_file p) True,
        Call Heif_context_get_primary_image_handle False,
        Stderr ''Could not get primary image handle\<newline>''] @
       [Call Heif_context_free True,
        Call Jpeg_destroy_compress True], Return False)"
  | (decode_fail) "jpeg_returns e Jpeg_create_compress"
    and "heif_context_alloc e"
    and "heif_context_read_from_file e"
    and "heif_context_get_primary_image_handle e"
    and "\<not> heif_decode_image e"
    and "convert_heic_to_jpg e p d q =
      ([Enter_convert p d q,
        Call Jpeg_std_error True,
        Call Jpeg_create_compress True,
        Call Heif_context_alloc True,
        Call (Heif_context_read_from_file p) True,
        Call Heif_context_get_primary_image_handle True,
        Call Heif_decode_image False,
        Stderr ''Could not decode image\<newline>''] @
       [Call Heif_image_handle_release True,
        Call Heif_context_free True,
        Call Jpeg_destroy_compress True], Return False)"
  | (no_dot) "jpeg_returns e Jpeg_create_compress"
    and "heif_context_alloc e"
    and "heif_context_read_from_file e"
    and "heif_context_get_primary_image_handle e"
    and "heif_decode_image e"
    and "output_filename_of p d = None"
    and "convert_heic_to_jpg e p d q =
      ([Enter_convert p d q,
        Call Jpeg_std_error True,
        Call Jpeg_create_compress True,
        Call Heif_context_alloc True,
        Call (Heif_context_read_from_file p) True,
        Call Heif_context_get_primary_image_handle True,
        Call Heif_decode_image True,
        Call Heif_image_get_plane_readonly True], Undefined_behaviour)"
  | (fopen_fail) fn where "jpeg_returns e Jpeg_create_compress"
    and "heif_context_alloc e"
    and "heif_context_read_from_file e"
    and "heif_context_get_primary_image_handle e"
    and "heif_decode_image e"
    and "output_filename_of p d = Some fn"
    and "\<not> fopen e fn"
    and "convert_heic_to_jpg e p d q =
      ([Enter_convert p d q,
        Call Jpeg_std_error True,
        Call Jpeg_create_compress True,
        Call Heif_context_alloc True,
        Call (Heif_context_read_from_file p) True,
        Call Heif_context_get_primary_image_handle True,
        Call Heif_decode_image True,
        Call Heif_image_get_plane_readonly True,
        Call (Fopen fn) False,
        Stderr (''Could not create output file: '' @ fn @ ''\<newline>'')] @
       [Call Heif_image_release True,
        Call Heif_image_handle_release True,
        Call Heif_context_free True,
        Call Jpeg_destroy_compress True], Return False)"
  | (encoder_fail) fn where "jpeg_returns e Jpeg_create_compress"
    and "heif_context_alloc e"
    and "heif_context_read_from_file e"
    and "heif_context_get_primary_image_handle e"
    and "heif_decode_image e"
    and "output_filename_of p d = Some fn"
    and "fopen e fn"
    and "\<not> encoder_returns e q"
    and "convert_heic_to_jpg e p d q =
      ([Enter_convert p d q,
        Call Jpeg_std_error True,
        Call Jpeg_create_compress True,
        Call Heif_context_alloc True,
        Call (Heif_context_read_from_file p) True,
        Call Heif_context_get_primary_image_handle True,
        Call Heif_decode_image True,
        Call Heif_image_get_plane_readonly True,
        Call (Fopen fn) True] @
       fst (encode e q), Error_exit)"
  | (success) fn where "jpeg_returns e Jpeg_create_compress"
    and "heif_context_alloc e"
    and "heif_context_read_from_file e"
    and "heif_context_get_primary_image_handle e"
    and "heif_decode_image e"
    and "output_filename_of p d = Some fn"
    and "fopen e fn"
    and "encoder_returns e q"
    and "convert_heic_to_jpg e p d q =
      (([Enter_convert p d q,
        Call Jpeg_std_error True,
        Call Jpeg_create_compress True,
        Call Heif_context_alloc True,
        Call (Heif_context_read_from_file p) True,
        Call Heif_context_get_primary_image_handle True,
        Call Heif_decode_image True,
        Call Heif_image_get_plane_readonly True,
        Call (Fopen fn) True] @
       fst (encode e q)) @
       [Call Fclose True,
        Call Heif_image_release True,
        Call Heif_image_handle_release True,
        Call Heif_context_free True,
        Call Jpeg_destroy_compress True], Return True)"
proof -
  have enc: "snd (encode e q) = encoder_returns e q"
    by (rule encode_returns_iff)
  show ?thesis
  proof (cases "jpeg_returns e Jpeg_create_compress")
    case False
    then show ?thesis
      by (intro that(1)) (simp_all add: convert_heic_to_jpg_def cleanup_and_return_def)
  next
    case c0: True
    show ?thesis
      proof (cases "heif_context_alloc e")
        case False
        with c0 show ?thesis
          by (intro that(2)) (simp_all add: convert_heic_to_jpg_def cleanup_and_return_def)
      next
        case c1: True
        show ?thesis
          proof (cases "heif_context_read_from_file e")
            case False
            with c0 c1 show ?thesis
              by (intro that(3)) (simp_all add: convert_heic_to_jpg_def cleanup_and_return_def)
          next
            case c2: True
            show ?thesis
              proof (cases "heif_context_get_primary_image_handle e")
                case False
                with c0 c1 c2 show ?thesis
                  by (intro that(4)) (simp_all add: convert_heic_to_jpg_def cleanup_and_return_def)
              next
                case c3: True
                show ?thesis
                  proof (cases "heif_decode_image e")
                    case False
                    with c0 c1 c2 c3 show ?thesis
                      by (intro that(5)) (simp_all add: convert_heic_to_jpg_def cleanup_and_return_def)
                  next
                    case c4: True
                    show ?thesis
                      proof (cases "output_filename_of p d")
                        case None
                        with c0 c1 c2 c3 c4 show ?thesis
                          by (intro that(6)) (simp_all add: convert_heic_to_jpg_def cleanup_and_return_def)
                      next
                        case (Some fn)
                        show ?thesis
                        proof (cases "fopen e fn")
                          case False
                          with c0 c1 c2 c3 c4 Some show ?thesis
                            by (intro that(7) [of fn]) (simp_all add: convert_heic_to_jpg_def cleanup_and_return_def)
                        next
                          case c5: True
                          show ?thesis
                          proof (cases "encoder_returns e q")
                            case False
                            with c0 c1 c2 c3 c4 Some c5 show ?thesis
                              by (intro that(8) [of fn]) (simp_all add: convert_heic_to_jpg_def cleanup_and_return_def split_beta enc)
                          next
                            case True
                            with c0 c1 c2 c3 c4 Some c5 show ?thesis
                              by (intro that(9) [of fn]) (simp_all add: convert_heic_to_jpg_def cleanup_and_return_def split_beta enc)
                          qed
                        qed
                      qed
                  qed
              qed
          qed
      qed
  qed
qed

lemma split_trace:
  "released t = [] \<Longrightarrow> acquired t' = [] \<Longrightarrow>
   \<exists>t1 t2. t @ t' = t1 @ t2 \<and> released t1 = [] \<and> acquired t2 = []"
  by blast

subsection \<open>The paths through \<^verbatim>\<open>main\<close>\<close>

text \<open>
  The six ways through \<^verbatim>\<open>main\<close>, each with its trace.
\<close>

lemma main_cases [case_names invalid ensure_fail opendir_fail loop_exit loop_undefined completed]:
  obtains
    (invalid) "invalid_quality w"
    and "main w =
      ([Stdout ''Enter JPEG quality (1-100, recommended 75-95): '',
        Call Scanf (scanf w \<noteq> None),
        Stderr ''Invalid quality value. Please enter a number between 1 and 100.\<newline>''],
       Return 1)"
  | (ensure_fail) typed where "scanf w = Some typed" and "1 \<le> scanf_stores typed"
    and "scanf_stores typed \<le> 100"
    and "stat w ''output'' = None" and "\<not> mkdir w ''output'' 493"
    and "main w =
      ([Stdout ''Enter JPEG quality (1-100, recommended 75-95): '',
        Call Scanf True,
        Stdout (''Using JPEG quality: '' @ show_int (scanf_stores typed) @ ''\<newline>'')] @
       fst (ensure_directory w ''output'') @
       [Stderr ''Failed to create output directory\<newline>''],
       Return 1)"
  | (opendir_fail) typed where "scanf w = Some typed" and "1 \<le> scanf_stores typed"
    and "scanf_stores typed \<le> 100"
    and "stat w ''output'' \<noteq> None \<or> mkdir w ''output'' 493"
    and "opendir w ''Photos'' = None"
    and "main w =
      ([Stdout ''Enter JPEG quality (1-100, recommended 75-95): '',
        Call Scanf True,
        Stdout (''Using JPEG quality: '' @ show_int (scanf_stores typed) @ ''\<newline>'')] @
       fst (ensure_directory w ''output'') @
       [Call (Opendir ''Photos'') False,
        Stderr (''Could not open Photos directory: '' @ strerror_errno w @ ''\<newline>'')],
       Return 1)"
  | (loop_exit) typed entries where "scanf w = Some typed"
    and "1 \<le> scanf_stores typed" and "scanf_stores typed \<le> 100"
    and "stat w ''output'' \<noteq> None \<or> mkdir w ''output'' 493"
    and "opendir w ''Photos'' = Some entries"
    and "snd (batch_loop w entries (scanf_stores typed) 0) = Error_exit"
    and "main w =
      ([Stdout ''Enter JPEG quality (1-100, recommended 75-95): '',
        Call Scanf True,
        Stdout (''Using JPEG quality: '' @ show_int (scanf_stores typed) @ ''\<newline>'')] @
       fst (ensure_directory w ''output'') @
       [Call (Opendir ''Photos'') True, Stdout ''Converting files...\<newline>''] @
       fst (batch_loop w entries (scanf_stores typed) 0),
       Error_exit)"
  | (loop_undefined) typed entries where "scanf w = Some typed"
    and "1 \<le> scanf_stores typed" and "scanf_stores typed \<le> 100"
    and "stat w ''output'' \<noteq> None \<or> mkdir w ''output'' 493"
    and "opendir w ''Photos'' = Some entries"
    and "snd (batch_loop w entries (scanf_stores typed) 0) = Undefined_behaviour"
    and "main w =
      ([Stdout ''Enter JPEG quality (1-100, recommended 75-95): '',
        Call Scanf True,
        Stdout (''Using JPEG quality: '' @ show_int (scanf_stores typed) @ ''\<newline>'')] @
       fst (ensure_directory w ''output'') @
       [Call (Opendir ''Photos'') True, Stdout ''Converting files...\<newline>''] @
       fst (batch_loop w entries (scanf_stores typed) 0),
       Undefined_behaviour)"
  | (completed) typed entries files_processed where "scanf w = Some typed"
    and "1 \<le> scanf_stores typed" and "scanf_stores typed \<le> 100"
    and "stat w ''output'' \<noteq> None \<or> mkdir w ''output'' 493"
    and "opendir w ''Photos'' = Some entries"
    and "snd (batch_loop w entries (scanf_stores typed) 0) = Return files_processed"
    and "main w =
      ([Stdout ''Enter JPEG quality (1-100, recommended 75-95): '',
        Call Scanf True,
        Stdout (''Using JPEG quality: '' @ show_int (scanf_stores typed) @ ''\<newline>'')] @
       fst (ensure_directory w ''output'') @
       [Call (Opendir ''Photos'') True, Stdout ''Converting files...\<newline>''] @
       fst (batch_loop w entries (scanf_stores typed) 0) @
       [Call Closedir (closedir w),
        Stdout (if files_processed = 0
                then ''No HEIC files found in the Photos directory.\<newline>''
                else ''Successfully converted '' @ show_int (int files_processed) @
                     '' photos to JPEG format.\<newline>'')],
       Return (if closedir w then 0 else 1))"
proof (cases "invalid_quality w")
  case True
  then show ?thesis
    by (intro that(1)) (auto simp: main_def invalid_quality_def split: option.splits)
next
  case False
  then obtain typed where q: "scanf w = Some typed" "1 \<le> scanf_stores typed"
      "scanf_stores typed \<le> 100"
    by (auto simp: invalid_quality_def split: option.splits)
  show ?thesis
  proof (cases "stat w ''output'' = None \<and> \<not> mkdir w ''output'' 493")
    case True
    with q show ?thesis
      by (intro that(2) [of typed]) (simp_all add: main_def ensure_directory_def Let_def)
  next
    case ensured: False
    then have ens: "snd (ensure_directory w ''output'')"
      by (auto simp: ensure_directory_def split: option.splits)
    show ?thesis
    proof (cases "opendir w ''Photos''")
      case None
      with q ensured ens show ?thesis
        by (intro that(3) [of typed]) (simp_all add: main_def split_beta Let_def)
    next
      case (Some entries)
      show ?thesis
      proof (cases "snd (batch_loop w entries (scanf_stores typed) 0)")
        case (Return n)
        with q ensured ens Some show ?thesis
          by (intro that(6) [of typed entries n]) (simp_all add: main_def split_beta Let_def)
      next
        case Error_exit
        with q ensured ens Some show ?thesis
          by (intro that(4) [of typed entries]) (simp_all add: main_def split_beta Let_def)
      next
        case Undefined_behaviour
        with q ensured ens Some show ?thesis
          by (intro that(5) [of typed entries]) (simp_all add: main_def split_beta Let_def)
      qed
    qed
  qed
qed

subsection \<open>Output file names\<close>

lemma base_name_of_decomp:
  "\<exists>pre. s = pre @ base_name_of s \<and> CHR ''/'' \<notin> set (base_name_of s) \<and>
     (pre = [] \<or> last pre = CHR ''/'')"
proof (cases "strrchr s (CHR ''/'')")
  case None
  then have "base_name_of s = s"
    by (simp add: base_name_of_def)
  moreover from None have "CHR ''/'' \<notin> set s"
    by (simp add: strrchr_None_iff)
  ultimately show ?thesis by simp
next
  case (Some r)
  from strrchr_SomeD [OF Some] obtain pre rest
    where s: "s = pre @ r" and r: "r = CHR ''/'' # rest" and rest: "CHR ''/'' \<notin> set rest"
    by blast
  from Some r have "base_name_of s = rest"
    by (simp add: base_name_of_def)
  moreover from s r have "s = (pre @ [CHR ''/'']) @ rest"
    by simp
  ultimately show ?thesis
    using rest by (intro exI [of _ "pre @ [CHR ''/'']"]) simp
qed

lemma base_name_of_keeps_suffix:
  assumes "s = a @ b" and "CHR ''/'' \<notin> set b"
  shows "\<exists>u. base_name_of s = u @ b"
proof -
  from base_name_of_decomp [of s] obtain pre
    where s: "s = pre @ base_name_of s" and pre: "pre = [] \<or> last pre = CHR ''/''"
    by blast
  from assms(1) s have "a @ b = pre @ base_name_of s"
    by simp
  then consider us where "a = pre @ us" "us @ b = base_name_of s"
    | us where "a @ us = pre" "b = us @ base_name_of s"
    by (auto simp: append_eq_append_conv2)
  then show ?thesis
  proof cases
    case 1
    then show ?thesis by metis
  next
    case 2
    show ?thesis
    proof (cases "us = []")
      case True
      with 2 show ?thesis by simp
    next
      case False
      with 2(1) pre have "last us = CHR ''/''"
        by auto
      with False have "CHR ''/'' \<in> set us"
        by (metis last_in_set)
      with 2(2) assms(2) show ?thesis
        by simp
    qed
  qed
qed


lemma int_cast_small: "0 \<le> n \<Longrightarrow> n < 2147483648 \<Longrightarrow> int_cast n = n"
  by (simp add: int_cast_def)

lemma scanf_stores_fits:
  "- 2147483648 \<le> typed \<Longrightarrow> typed < 2147483648 \<Longrightarrow> scanf_stores typed = typed"
  by (simp add: scanf_stores_def int_cast_def)

lemma output_filename_of_stem:
  assumes "base_name_of p = stem @ CHR ''.'' # ext" and "CHR ''.'' \<notin> set ext"
    and "length stem < 2147483648"
  shows "output_filename_of p d = Some (snprintf MAX_PATH (d @ ''/'' @ stem @ ''.jpg''))"
proof -
  from assms(2) have dot: "strrchr (stem @ CHR ''.'' # ext) (CHR ''.'') = Some (CHR ''.'' # ext)"
    by (rule strrchr_last_occurrence)
  have "int_cast (int (length (stem @ CHR ''.'' # ext)) - int (length (CHR ''.'' # ext))) =
      int (length stem)"
    using assms(3) by (simp add: int_cast_small)
  then have "printf_precision_s
      (int_cast (int (length (stem @ CHR ''.'' # ext)) - int (length (CHR ''.'' # ext))))
      (stem @ CHR ''.'' # ext) = stem"
    by (simp add: printf_precision_s_def)
  with dot show ?thesis
    unfolding output_filename_of_def Let_def assms(1) by simp
qed


lemma tolower_slash: "tolower (CHR ''/'') = CHR ''/''"
  by (simp add: tolower_def)

lemma lower_heic_no_slash:
  assumes "map tolower ext = ''heic''"
  shows "CHR ''/'' \<notin> set ext"
proof
  assume "CHR ''/'' \<in> set ext"
  then have "tolower (CHR ''/'') \<in> set (map tolower ext)"
    by simp
  then have "CHR ''/'' \<in> set ''heic''"
    by (simp only: tolower_slash assms)
  then show False
    by simp
qed

lemma driver_path_fits:
  "length d_name \<le> NAME_MAX \<Longrightarrow>
     snprintf MAX_PATH (''Photos'' @ ''/'' @ d_name) = ''Photos/'' @ d_name"
  by (simp add: snprintf_def MAX_PATH_def NAME_MAX_def)

lemma accepted_name_base_name:
  assumes "has_heic_extension d_name" and "length d_name \<le> NAME_MAX"
  shows "\<exists>stem ext. base_name_of (snprintf MAX_PATH (''Photos'' @ ''/'' @ d_name)) =
           stem @ CHR ''.'' # ext \<and> CHR ''.'' \<notin> set ext \<and> length stem < 1024"
proof -
  from assms(1) obtain s0 ext where d: "d_name = s0 @ CHR ''.'' # ext"
    and low: "map tolower ext = ''heic''"
    unfolding has_heic_extension_iff by (elim exE conjE)
  from low have no_dot: "CHR ''.'' \<notin> set ext"
    by (rule lower_heic_no_dot)
  from low have "CHR ''/'' \<notin> set ext"
    by (rule lower_heic_no_slash)
  then have no_slash: "CHR ''/'' \<notin> set (CHR ''.'' # ext)"
    by simp
  let ?path = "snprintf MAX_PATH (''Photos'' @ ''/'' @ d_name)"
  have "?path = ''Photos/'' @ d_name"
    using assms(2) by (rule driver_path_fits)
  also have "\<dots> = (''Photos/'' @ s0) @ CHR ''.'' # ext"
    by (simp add: d)
  finally have path: "?path = (''Photos/'' @ s0) @ CHR ''.'' # ext" .
  from base_name_of_keeps_suffix [OF path no_slash] obtain u
    where u: "base_name_of ?path = u @ CHR ''.'' # ext"
    by blast
  from base_name_of_decomp [of ?path] obtain pre where "?path = pre @ base_name_of ?path"
    by blast
  then have "length (base_name_of ?path) \<le> length ?path"
    by (metis length_append le_add2)
  also have "length ?path < 1024"
    using assms(2) by (simp add: snprintf_def MAX_PATH_def)
  finally have "length (base_name_of ?path) < 1024" .
  then have "length u < 1024"
    unfolding u by simp
  with u no_dot show ?thesis
    by (intro exI [of _ u] exI [of _ ext]) (simp only: simp_thms)
qed

lemma accepted_name_output_filename:
  assumes "has_heic_extension d_name" and "length d_name \<le> NAME_MAX"
  shows "output_filename_of (snprintf MAX_PATH (''Photos'' @ ''/'' @ d_name)) output_dir \<noteq> None"
proof -
  from accepted_name_base_name [OF assms] obtain stem ext
    where "base_name_of (snprintf MAX_PATH (''Photos'' @ ''/'' @ d_name)) = stem @ CHR ''.'' # ext"
      and "CHR ''.'' \<notin> set ext" and "length stem < 1024"
    by blast
  then show ?thesis
    by (simp add: output_filename_of_stem)
qed

subsection \<open>The batch loop\<close>

lemma convert_jobs: "jobs_of (fst (convert_heic_to_jpg e p d q)) = [p]"
  by (cases rule: convert_cases [of e p d q]) (simp_all add: encode_trace)

lemma convert_undefinedD:
  "snd (convert_heic_to_jpg e p d q) = Undefined_behaviour \<Longrightarrow> output_filename_of p d = None"
  by (cases rule: convert_cases [of e p d q]) simp_all

lemma batch_loop_skip:
  "\<not> has_heic_extension d_name \<Longrightarrow>
     batch_loop w (d_name # rest) q n =
       (Call Readdir True # fst (batch_loop w rest q n), snd (batch_loop w rest q n))"
  by simp

lemma batch_loop_select:
  assumes "has_heic_extension d_name"
  shows "batch_loop w (d_name # rest) q n =
     (let input_path = snprintf MAX_PATH (''Photos'' @ ''/'' @ d_name);
          c = convert_heic_to_jpg (job w input_path) input_path ''output'' q
      in case snd c of
           Return success \<Rightarrow>
             (Call Readdir True # fst c @
                fst (batch_loop w rest q (if success then n + 1 else n)),
              snd (batch_loop w rest q (if success then n + 1 else n)))
         | Error_exit \<Rightarrow> (Call Readdir True # fst c, Error_exit)
         | Undefined_behaviour \<Rightarrow> (Call Readdir True # fst c, Undefined_behaviour))"
  using assms by (simp add: Let_def split: prod.splits outcome.splits)

lemma upto_first_failure_all:
  "\<forall>x\<in>set xs. snd x \<Longrightarrow> upto_first_failure xs = xs"
  by (induction xs) auto

lemma batch_loop_jobs_upto:
  "jobs_of (fst (batch_loop w entries q n)) =
     map fst (upto_first_failure
       (map (\<lambda>d_name.
               (snprintf MAX_PATH (''Photos'' @ ''/'' @ d_name),
                conversion_returns (job w (snprintf MAX_PATH (''Photos'' @ ''/'' @ d_name)))
                  (snprintf MAX_PATH (''Photos'' @ ''/'' @ d_name)) ''output'' q))
          (filter has_heic_extension entries)))"
proof (induction entries arbitrary: n)
  case Nil
  then show ?case by simp
next
  case (Cons d_name rest)
  show ?case
  proof (cases "has_heic_extension d_name")
    case False
    with Cons show ?thesis
      by (simp add: batch_loop_skip del: batch_loop.simps)
  next
    case True
    let ?path = "snprintf MAX_PATH (''Photos'' @ ''/'' @ d_name)"
    show ?thesis
    proof (cases "snd (convert_heic_to_jpg (job w ?path) ?path ''output'' q)")
      case (Return success)
      with True Cons.IH [of "if success then n + 1 else n"] show ?thesis
        by (simp add: batch_loop_select Let_def convert_jobs conversion_returns_def
            del: batch_loop.simps)
    next
      case Error_exit
      with True show ?thesis
        by (simp add: batch_loop_select Let_def convert_jobs conversion_returns_def
            del: batch_loop.simps)
    next
      case Undefined_behaviour
      with True show ?thesis
        by (simp add: batch_loop_select Let_def convert_jobs conversion_returns_def
            del: batch_loop.simps)
    qed
  qed
qed

lemma batch_loop_defined:
  "\<forall>d_name\<in>set entries. length d_name \<le> NAME_MAX \<Longrightarrow>
     snd (batch_loop w entries q n) \<noteq> Undefined_behaviour"
proof (induction entries arbitrary: n)
  case Nil
  then show ?case by simp
next
  case (Cons d_name rest)
  show ?case
  proof (cases "has_heic_extension d_name")
    case False
    with Cons show ?thesis
      by (simp add: batch_loop_skip del: batch_loop.simps)
  next
    case True
    let ?path = "snprintf MAX_PATH (''Photos'' @ ''/'' @ d_name)"
    from Cons.prems have "length d_name \<le> NAME_MAX"
      by simp
    with True have "output_filename_of ?path ''output'' \<noteq> None"
      by (rule accepted_name_output_filename)
    then have "snd (convert_heic_to_jpg (job w ?path) ?path ''output'' q) \<noteq> Undefined_behaviour"
      by (auto dest: convert_undefinedD)
    moreover from Cons.prems have "\<forall>d_name\<in>set rest. length d_name \<le> NAME_MAX"
      by simp
    ultimately show ?thesis
      using True Cons.IH
      by (simp add: batch_loop_select Let_def del: batch_loop.simps split: outcome.splits)
  qed
qed

lemma ensure_directory_trace [simp]:
  "jobs_of (fst (ensure_directory w path)) = []"
  by (simp add: ensure_directory_def split: option.splits)

subsection \<open>Claim C1: the return value of a conversion\<close>

text \<open>
  Claim C1 says that \<^verbatim>\<open>convert_heic_to_jpg\<close> returns true exactly when every step
  succeeds, and that a failure at any step, scanline encoding and finish-compress included,
  returns false. The program checks five steps only. A libjpeg call that fails does not come
  back: with the second row unwritable the conversion ends in \<open>Error_exit\<close>, it does not
  return false.
\<close>

theorem convert_encoder_failure_not_false:
  "\<not> jpeg_returns job_scanline_fails (Jpeg_write_scanlines 1) \<and>
   \<not> encoder_returns job_scanline_fails 85 \<and>
   snd (convert_heic_to_jpg job_scanline_fails ''Photos/a.HEIC'' ''output'' 85) \<noteq> Return False \<and>
   snd (convert_heic_to_jpg job_scanline_fails ''Photos/a.HEIC'' ''output'' 85) = Error_exit"
  by code_simp

text \<open>
  Claim C1, amended. For every environment, input path, output directory and quality:
  \<^item> the conversion returns true exactly when \<^verbatim>\<open>jpeg_create_compress\<close> returns, the five
    checked steps (context allocation, container read, primary image handle, decode, output
    file open) succeed and every call of the encoder returns;
  \<^item> when one of the first four steps fails, or the output file cannot be opened, the
    conversion returns false, and the steps it executed are those up to and including the
    first failure: no later step is executed;
  \<^item> when the five steps succeed and a call of the encoder does not return, the conversion does
    not return.
\<close>

theorem convert_true_iff_all_steps:
  "(snd (convert_heic_to_jpg e p d q) = Return True \<longleftrightarrow>
      jpeg_returns e Jpeg_create_compress \<and> heif_context_alloc e \<and>
      heif_context_read_from_file e \<and> heif_context_get_primary_image_handle e \<and>
      heif_decode_image e \<and> (\<exists>fn. output_filename_of p d = Some fn \<and> fopen e fn) \<and>
      encoder_returns e q) \<and>
   (jpeg_returns e Jpeg_create_compress \<and>
    \<not> (heif_context_alloc e \<and> heif_context_read_from_file e \<and>
       heif_context_get_primary_image_handle e \<and> heif_decode_image e) \<longrightarrow>
      snd (convert_heic_to_jpg e p d q) = Return False \<and>
      steps (fst (convert_heic_to_jpg e p d q)) =
        upto_first_failure
          [(Heif_context_alloc, heif_context_alloc e),
           (Heif_context_read_from_file p, heif_context_read_from_file e),
           (Heif_context_get_primary_image_handle, heif_context_get_primary_image_handle e),
           (Heif_decode_image, heif_decode_image e)]) \<and>
   (\<forall>fn. jpeg_returns e Jpeg_create_compress \<and> heif_context_alloc e \<and>
      heif_context_read_from_file e \<and> heif_context_get_primary_image_handle e \<and>
      heif_decode_image e \<and> output_filename_of p d = Some fn \<and> \<not> fopen e fn \<longrightarrow>
      snd (convert_heic_to_jpg e p d q) = Return False \<and>
      steps (fst (convert_heic_to_jpg e p d q)) =
        [(Heif_context_alloc, True), (Heif_context_read_from_file p, True),
         (Heif_context_get_primary_image_handle, True), (Heif_decode_image, True),
         (Fopen fn, False)]) \<and>
   (\<forall>fn. jpeg_returns e Jpeg_create_compress \<and> heif_context_alloc e \<and>
      heif_context_read_from_file e \<and> heif_context_get_primary_image_handle e \<and>
      heif_decode_image e \<and> output_filename_of p d = Some fn \<and> fopen e fn \<and>
      \<not> encoder_returns e q \<longrightarrow>
      snd (convert_heic_to_jpg e p d q) = Error_exit)"
proof (cases rule: convert_cases [of e p d q])
  case create_fail
  then show ?thesis by simp
next
  case alloc_fail
  then show ?thesis by simp
next
  case read_fail
  then show ?thesis by simp
next
  case handle_fail
  then show ?thesis by simp
next
  case decode_fail
  then show ?thesis by simp
next
  case no_dot
  then show ?thesis by simp
next
  case (fopen_fail fn)
  then show ?thesis by simp
next
  case (encoder_fail fn)
  then show ?thesis by simp
next
  case (success fn)
  then show ?thesis by simp
qed

theorem convert_true_iff_all_steps_witness:
  "snd (convert_heic_to_jpg job_ok ''Photos/a.HEIC'' ''output'' 85) = Return True \<and>
   snd (convert_heic_to_jpg job_decode_fails ''Photos/a.HEIC'' ''output'' 85) = Return False \<and>
   steps (fst (convert_heic_to_jpg job_decode_fails ''Photos/a.HEIC'' ''output'' 85)) =
     [(Heif_context_alloc, True), (Heif_context_read_from_file ''Photos/a.HEIC'', True),
      (Heif_context_get_primary_image_handle, True), (Heif_decode_image, False)] \<and>
   snd (convert_heic_to_jpg job_fopen_fails ''Photos/a.HEIC'' ''output'' 85) = Return False \<and>
   steps (fst (convert_heic_to_jpg job_fopen_fails ''Photos/a.HEIC'' ''output'' 85)) =
     [(Heif_context_alloc, True), (Heif_context_read_from_file ''Photos/a.HEIC'', True),
      (Heif_context_get_primary_image_handle, True), (Heif_decode_image, True),
      (Fopen ''output/a.jpg'', False)] \<and>
   snd (convert_heic_to_jpg job_scanline_fails ''Photos/a.HEIC'' ''output'' 85) = Error_exit"
proof -
  have fn: "output_filename_of ''Photos/a.HEIC'' ''output'' = Some ''output/a.jpg''"
    by code_simp
  have enc: "encoder_returns job_ok 85" "\<not> encoder_returns job_scanline_fails 85"
    by code_simp+
  have "snd (convert_heic_to_jpg job_ok ''Photos/a.HEIC'' ''output'' 85) = Return True"
    using convert_true_iff_all_steps [of job_ok "''Photos/a.HEIC''" "''output''" 85] fn enc
    by (simp add: job_ok_def)
  moreover have
    "snd (convert_heic_to_jpg job_decode_fails ''Photos/a.HEIC'' ''output'' 85) = Return False \<and>
     steps (fst (convert_heic_to_jpg job_decode_fails ''Photos/a.HEIC'' ''output'' 85)) =
       [(Heif_context_alloc, True), (Heif_context_read_from_file ''Photos/a.HEIC'', True),
        (Heif_context_get_primary_image_handle, True), (Heif_decode_image, False)]"
    using convert_true_iff_all_steps [of job_decode_fails "''Photos/a.HEIC''" "''output''" 85]
    by (simp add: job_decode_fails_def job_ok_def)
  moreover have
    "snd (convert_heic_to_jpg job_fopen_fails ''Photos/a.HEIC'' ''output'' 85) = Return False \<and>
     steps (fst (convert_heic_to_jpg job_fopen_fails ''Photos/a.HEIC'' ''output'' 85)) =
       [(Heif_context_alloc, True), (Heif_context_read_from_file ''Photos/a.HEIC'', True),
        (Heif_context_get_primary_image_handle, True), (Heif_decode_image, True),
        (Fopen ''output/a.jpg'', False)]"
    using convert_true_iff_all_steps [of job_fopen_fails "''Photos/a.HEIC''" "''output''" 85] fn
    by (simp add: job_fopen_fails_def job_ok_def)
  moreover have
    "snd (convert_heic_to_jpg job_scanline_fails ''Photos/a.HEIC'' ''output'' 85) = Error_exit"
    using convert_true_iff_all_steps [of job_scanline_fails "''Photos/a.HEIC''" "''output''" 85]
      fn enc
    by (simp add: job_scanline_fails_def job_ok_def)
  ultimately show ?thesis
    by (intro conjI) simp_all
qed

subsection \<open>Claim C2: the summary line\<close>

text \<open>
  Claim C2 says that after the batch loop the program prints ``No HEIC files found'' exactly
  when no directory entry matched the extension filter, and otherwise ``Successfully
  converted N photos'' with N the number of conversions that succeeded. Line 192 tests
  \<^verbatim>\<open>files_processed\<close>, which counts the successful conversions, not the matching entries.
  In a run where \<^verbatim>\<open>Photos\<close> holds the single entry \<^verbatim>\<open>a.HEIC\<close> and that file
  cannot be read, one entry matches the filter and one conversion is started, and the
  program still prints that no HEIC files were found.
\<close>

theorem summary_claims_no_files_although_one_matched:
  "filter has_heic_extension [''a.HEIC''] = [''a.HEIC''] \<and>
   jobs_of (fst (main world_one_unreadable)) = [''Photos/a.HEIC''] \<and>
   stderr_lines (fst (main world_one_unreadable)) =
     [''Could not read HEIC file: Photos/a.HEIC\<newline>''] \<and>
   last (stdout_lines (fst (main world_one_unreadable))) =
     ''No HEIC files found in the Photos directory.\<newline>'' \<and>
   snd (main world_one_unreadable) = Return 0"
  by code_simp

subsection \<open>Claim C3: the exit status\<close>

text \<open>
  Claim C3 says that the program exits with status 1 exactly when the quality is invalid,
  the output directory cannot be created or the input directory cannot be opened. Line 198
  returns \<^verbatim>\<open>!success\<close>, and \<^verbatim>\<open>success\<close> is set only when \<^verbatim>\<open>closedir\<close> returns 0
  (line 188): with a valid quality, an output directory and an input directory that opens,
  a failing \<^verbatim>\<open>closedir\<close> gives status 1.
\<close>

theorem main_closedir_failure_exits_1:
  "\<not> invalid_quality world_closedir_fails \<and>
   snd (ensure_directory world_closedir_fails ''output'') \<and>
   opendir world_closedir_fails ''Photos'' = Some [] \<and>
   snd (main world_closedir_fails) = Return 1"
  by code_simp

text \<open>
  Claim C3, amended. The quality is judged by the \<^verbatim>\<open>int\<close> that \<^verbatim>\<open>scanf\<close> stores;
  it is the number typed when that number fits in an \<^verbatim>\<open>int\<close>. The output directory is
  judged by \<^verbatim>\<open>stat\<close> and \<^verbatim>\<open>mkdir\<close> alone.
  \<^item> \<^verbatim>\<open>main\<close> returns 0 exactly when \<^verbatim>\<open>scanf\<close> reads a number, the stored
    \<^verbatim>\<open>int\<close> is in \<open>[1, 100]\<close>, \<^verbatim>\<open>stat\<close> succeeds on \<^verbatim>\<open>output\<close> (whatever
    the entry is) or \<^verbatim>\<open>mkdir\<close> succeeds, \<^verbatim>\<open>opendir\<close> succeeds on \<^verbatim>\<open>Photos\<close>, the
    batch loop runs to its end (with any number of conversions, zero included) and
    \<^verbatim>\<open>closedir\<close> succeeds.
  \<^item> \<^verbatim>\<open>main\<close> returns 1 exactly when \<^verbatim>\<open>scanf\<close> reads no number, or the stored
    \<^verbatim>\<open>int\<close> is outside \<open>[1, 100]\<close>, or \<^verbatim>\<open>stat\<close> and \<^verbatim>\<open>mkdir\<close> both fail on
    \<^verbatim>\<open>output\<close>, or \<^verbatim>\<open>opendir\<close> fails on \<^verbatim>\<open>Photos\<close>, or the batch loop runs to
    its end and \<^verbatim>\<open>closedir\<close> fails.
  \<^item> When the quality is rejected, \<^verbatim>\<open>main\<close> returns 1 without any call that scans or
    changes a directory, and without any conversion.
  So a typed 4294967297, stored as 1, is accepted, and a regular file named \<^verbatim>\<open>output\<close>
  stands for the output directory: both runs return 0.
\<close>

theorem main_exit_status:
  "(snd (main w) = Return 0 \<longleftrightarrow>
      (\<exists>typed entries n. scanf w = Some typed \<and>
         1 \<le> scanf_stores typed \<and> scanf_stores typed \<le> 100 \<and>
         (stat w ''output'' \<noteq> None \<or> mkdir w ''output'' 493) \<and>
         opendir w ''Photos'' = Some entries \<and>
         snd (batch_loop w entries (scanf_stores typed) 0) = Return n \<and> closedir w)) \<and>
   (snd (main w) = Return 1 \<longleftrightarrow>
      scanf w = None \<or>
      (\<exists>typed. scanf w = Some typed \<and> (scanf_stores typed < 1 \<or> 100 < scanf_stores typed)) \<or>
      (stat w ''output'' = None \<and> \<not> mkdir w ''output'' 493) \<or>
      opendir w ''Photos'' = None \<or>
      (\<exists>typed entries n. scanf w = Some typed \<and> opendir w ''Photos'' = Some entries \<and>
         snd (batch_loop w entries (scanf_stores typed) 0) = Return n \<and> \<not> closedir w)) \<and>
   (scanf w = None \<or>
    (\<exists>typed. scanf w = Some typed \<and> (scanf_stores typed < 1 \<or> 100 < scanf_stores typed)) \<longrightarrow>
      snd (main w) = Return 1 \<and> filter is_directory_call (fst (main w)) = [] \<and>
      jobs_of (fst (main w)) = []) \<and>
   (\<forall>typed. - 2147483648 \<le> typed \<and> typed < 2147483648 \<longrightarrow> scanf_stores typed = typed)"
proof (intro conjI allI impI)
  show "snd (main w) = Return 0 \<longleftrightarrow>
      (\<exists>typed entries n. scanf w = Some typed \<and>
         1 \<le> scanf_stores typed \<and> scanf_stores typed \<le> 100 \<and>
         (stat w ''output'' \<noteq> None \<or> mkdir w ''output'' 493) \<and>
         opendir w ''Photos'' = Some entries \<and>
         snd (batch_loop w entries (scanf_stores typed) 0) = Return n \<and> closedir w)"
    by (cases rule: main_cases [of w]) (auto simp: invalid_quality_def)
next
  show "snd (main w) = Return 1 \<longleftrightarrow>
      scanf w = None \<or>
      (\<exists>typed. scanf w = Some typed \<and> (scanf_stores typed < 1 \<or> 100 < scanf_stores typed)) \<or>
      (stat w ''output'' = None \<and> \<not> mkdir w ''output'' 493) \<or>
      opendir w ''Photos'' = None \<or>
      (\<exists>typed entries n. scanf w = Some typed \<and> opendir w ''Photos'' = Some entries \<and>
         snd (batch_loop w entries (scanf_stores typed) 0) = Return n \<and> \<not> closedir w)"
    by (cases rule: main_cases [of w]) (auto simp: invalid_quality_def split: option.splits)
next
  assume "scanf w = None \<or>
    (\<exists>typed. scanf w = Some typed \<and> (scanf_stores typed < 1 \<or> 100 < scanf_stores typed))"
  then have invalid: "invalid_quality w"
    by (auto simp: invalid_quality_def)
  show "snd (main w) = Return 1"
    by (cases rule: main_cases [of w]) (use invalid in \<open>auto simp: invalid_quality_def\<close>)
  show "filter is_directory_call (fst (main w)) = []"
    by (cases rule: main_cases [of w]) (use invalid in \<open>auto simp: invalid_quality_def\<close>)
  show "jobs_of (fst (main w)) = []"
    by (cases rule: main_cases [of w]) (use invalid in \<open>auto simp: invalid_quality_def\<close>)
next
  fix typed :: int
  assume "- 2147483648 \<le> typed \<and> typed < 2147483648"
  then show "scanf_stores typed = typed"
    by (simp add: scanf_stores_fits)
qed

theorem main_exit_status_witness:
  "snd (main world_ok) = Return 0 \<and>
   scanf world_quality_0 = Some 0 \<and> scanf_stores 0 = 0 \<and>
   snd (main world_quality_0) = Return 1 \<and>
   filter is_directory_call (fst (main world_quality_0)) = [] \<and>
   jobs_of (fst (main world_quality_0)) = [] \<and>
   scanf world_quality_wraps = Some 4294967297 \<and> scanf_stores 4294967297 = 1 \<and>
   snd (main world_quality_wraps) = Return 0 \<and>
   stat world_output_is_file ''output'' = Some Regular_file \<and>
   snd (main world_output_is_file) = Return 0"
proof -
  have run: "scanf w = Some typed \<and> 1 \<le> scanf_stores typed \<and> scanf_stores typed \<le> 100 \<and>
      (stat w ''output'' \<noteq> None \<or> mkdir w ''output'' 493) \<and>
      opendir w ''Photos'' = Some entries \<and>
      snd (batch_loop w entries (scanf_stores typed) 0) = Return n \<and> closedir w \<Longrightarrow>
      snd (main w) = Return 0" for w typed entries n
    by (rule iffD2 [OF conjunct1 [OF main_exit_status]]) (intro exI)
  have "scanf world_ok = Some 85 \<and> 1 \<le> scanf_stores 85 \<and> scanf_stores 85 \<le> 100 \<and>
      (stat world_ok ''output'' \<noteq> None \<or> mkdir world_ok ''output'' 493) \<and>
      opendir world_ok ''Photos'' = Some [''a.HEIC'', ''b.heic'', ''c.txt''] \<and>
      snd (batch_loop world_ok [''a.HEIC'', ''b.heic'', ''c.txt''] (scanf_stores 85) 0) =
        Return 2 \<and>
      closedir world_ok"
    by code_simp
  then have ok: "snd (main world_ok) = Return 0"
    by (rule run)
  have "scanf world_quality_wraps = Some 4294967297 \<and> 1 \<le> scanf_stores 4294967297 \<and>
      scanf_stores 4294967297 \<le> 100 \<and>
      (stat world_quality_wraps ''output'' \<noteq> None \<or> mkdir world_quality_wraps ''output'' 493) \<and>
      opendir world_quality_wraps ''Photos'' = Some [''a.HEIC'', ''b.heic'', ''c.txt''] \<and>
      snd (batch_loop world_quality_wraps [''a.HEIC'', ''b.heic'', ''c.txt'']
             (scanf_stores 4294967297) 0) = Return 2 \<and>
      closedir world_quality_wraps"
    by code_simp
  then have wraps: "snd (main world_quality_wraps) = Return 0"
    by (rule run)
  have "scanf world_output_is_file = Some 85 \<and> 1 \<le> scanf_stores 85 \<and>
      scanf_stores 85 \<le> 100 \<and>
      (stat world_output_is_file ''output'' \<noteq> None \<or> mkdir world_output_is_file ''output'' 493) \<and>
      opendir world_output_is_file ''Photos'' = Some [''a.HEIC'', ''b.heic'', ''c.txt''] \<and>
      snd (batch_loop world_output_is_file [''a.HEIC'', ''b.heic'', ''c.txt'']
             (scanf_stores 85) 0) = Return 2 \<and>
      closedir world_output_is_file"
    by code_simp
  then have regular: "snd (main world_output_is_file) = Return 0"
    by (rule run)
  have facts: "scanf world_quality_0 = Some 0" "scanf_stores 0 = 0"
    "scanf world_quality_wraps = Some 4294967297" "scanf_stores 4294967297 = 1"
    "stat world_output_is_file ''output'' = Some Regular_file"
    by code_simp+
  then have "scanf world_quality_0 = None \<or>
      (\<exists>typed. scanf world_quality_0 = Some typed \<and>
         (scanf_stores typed < 1 \<or> 100 < scanf_stores typed))"
    by simp
  with main_exit_status [of world_quality_0]
  have "snd (main world_quality_0) = Return 1 \<and>
      filter is_directory_call (fst (main world_quality_0)) = [] \<and>
      jobs_of (fst (main world_quality_0)) = []"
    by (simp only: simp_thms)
  with ok wraps regular facts show ?thesis
    by (simp only: simp_thms)
qed

subsection \<open>Claim C4: diagnostics of a failed conversion\<close>

text \<open>
  Claim C4 says that every failure of a conversion writes a diagnostic that contains the
  offending path to the error stream, that the job is abandoned and that the loop goes on
  with the next entry. The messages of lines 90 and 121 contain a path; those of lines 96
  and 103 (no primary image, decode failure) do not. In a run where \<^verbatim>\<open>a.HEIC\<close> has no
  primary image and \<^verbatim>\<open>b.heic\<close> converts, the only line on the error stream does not
  contain the name of the file; the loop does go on: \<^verbatim>\<open>b.heic\<close> is converted and
  counted.
\<close>

theorem diagnostic_without_path_and_loop_continues:
  "stderr_lines (fst (main world_no_primary)) = [''Could not get primary image handle\<newline>''] \<and>
   \<not> sublist ''a.HEIC'' ''Could not get primary image handle\<newline>'' \<and>
   jobs_of (fst (main world_no_primary)) = [''Photos/a.HEIC'', ''Photos/b.heic''] \<and>
   last (stdout_lines (fst (main world_no_primary))) =
     ''Successfully converted 1 photos to JPEG format.\<newline>'' \<and>
   snd (main world_no_primary) = Return 0"
  by code_simp

subsection \<open>Claim C5: the entries the driver selects\<close>

text \<open>
  Claim C5 says that the driver passes to the converter exactly the directory entries whose
  name ends in \<^verbatim>\<open>.HEIC\<close> in any mix of cases: \<^verbatim>\<open>a.HEIC\<close> and \<^verbatim>\<open>b.heic\<close> for the
  listing \<^verbatim>\<open>a.HEIC\<close>, \<^verbatim>\<open>b.heic\<close>, \<^verbatim>\<open>c.txt\<close>. A conversion that meets a fatal
  libjpeg error ends the process (line 79 keeps the default error manager): in that listing,
  when the second row of \<^verbatim>\<open>a.HEIC\<close> cannot be written, \<^verbatim>\<open>b.heic\<close> is accepted by the
  filter and never passed to the converter.
\<close>

theorem fatal_conversion_ends_the_selection:
  "opendir world_fatal_first ''Photos'' = Some [''a.HEIC'', ''b.heic'', ''c.txt''] \<and>
   has_heic_extension ''b.heic'' \<and>
   jobs_of (fst (main world_fatal_first)) = [''Photos/a.HEIC''] \<and>
   snd (main world_fatal_first) = Error_exit"
  by code_simp

text \<open>
  Claim C5, amended. A name is accepted by \<^verbatim>\<open>has_heic_extension\<close> exactly when it ends
  in a dot followed by \<open>heic\<close> in any mix of cases (that dot is then its last dot). In
  every run that reaches the batch loop, the conversions started are those of the accepted
  entries of \<^verbatim>\<open>Photos\<close>, in the order of the listing and each under the path
  \<^verbatim>\<open>Photos/<name>\<close>, up to and including the first one that does not come back to the
  driver. When every conversion comes back, with true or with false, the conversions
  started are exactly those of the accepted entries: \<^verbatim>\<open>Photos/a.HEIC\<close> and
  \<^verbatim>\<open>Photos/b.heic\<close> for the listing \<^verbatim>\<open>a.HEIC\<close>, \<^verbatim>\<open>b.heic\<close>, \<^verbatim>\<open>c.txt\<close>.
\<close>

theorem driver_selects_heic_entries:
  "(has_heic_extension d_name \<longleftrightarrow>
      (\<exists>stem ext. d_name = stem @ CHR ''.'' # ext \<and> map tolower ext = ''heic'')) \<and>
   (\<forall>typed entries. scanf w = Some typed \<and>
      1 \<le> scanf_stores typed \<and> scanf_stores typed \<le> 100 \<and>
      (stat w ''output'' \<noteq> None \<or> mkdir w ''output'' 493) \<and>
      opendir w ''Photos'' = Some entries \<longrightarrow>
      jobs_of (fst (main w)) =
        map fst (upto_first_failure
          (map (\<lambda>d_name.
                  (snprintf MAX_PATH (''Photos'' @ ''/'' @ d_name),
                   conversion_returns (job w (snprintf MAX_PATH (''Photos'' @ ''/'' @ d_name)))
                     (snprintf MAX_PATH (''Photos'' @ ''/'' @ d_name)) ''output''
                     (scanf_stores typed)))
             (filter has_heic_extension entries))) \<and>
      ((\<forall>d_name\<in>set (filter has_heic_extension entries).
          conversion_returns (job w (snprintf MAX_PATH (''Photos'' @ ''/'' @ d_name)))
            (snprintf MAX_PATH (''Photos'' @ ''/'' @ d_name)) ''output'' (scanf_stores typed)) \<longrightarrow>
       jobs_of (fst (main w)) =
         map (\<lambda>d_name. snprintf MAX_PATH (''Photos'' @ ''/'' @ d_name))
           (filter has_heic_extension entries)))"
proof (intro conjI allI impI)
  show "has_heic_extension d_name \<longleftrightarrow>
      (\<exists>stem ext. d_name = stem @ CHR ''.'' # ext \<and> map tolower ext = ''heic'')"
    by (rule has_heic_extension_iff)
next
  fix typed entries
  assume a: "scanf w = Some typed \<and> 1 \<le> scanf_stores typed \<and> scanf_stores typed \<le> 100 \<and>
      (stat w ''output'' \<noteq> None \<or> mkdir w ''output'' 493) \<and>
      opendir w ''Photos'' = Some entries"
  let ?path = "\<lambda>d_name. snprintf MAX_PATH (''Photos'' @ ''/'' @ d_name)"
  let ?flagged = "map (\<lambda>d_name. (?path d_name,
      conversion_returns (job w (?path d_name)) (?path d_name) ''output'' (scanf_stores typed)))
    (filter has_heic_extension entries)"
  have loop: "jobs_of (fst (main w)) = jobs_of (fst (batch_loop w entries (scanf_stores typed) 0))"
    by (cases rule: main_cases [of w]) (use a in \<open>auto simp: invalid_quality_def\<close>)
  then show upto: "jobs_of (fst (main w)) = map fst (upto_first_failure ?flagged)"
    by (simp only: batch_loop_jobs_upto)
  assume "\<forall>d_name\<in>set (filter has_heic_extension entries).
      conversion_returns (job w (?path d_name)) (?path d_name) ''output'' (scanf_stores typed)"
  then have "\<forall>x\<in>set ?flagged. snd x"
    by auto
  then have "upto_first_failure ?flagged = ?flagged"
    by (rule upto_first_failure_all)
  with upto have "jobs_of (fst (main w)) = map fst ?flagged"
    by (simp only:)
  then show "jobs_of (fst (main w)) = map ?path (filter has_heic_extension entries)"
    by (simp add: comp_def)
qed

theorem driver_selects_heic_entries_witness:
  "opendir world_no_primary ''Photos'' = Some [''a.HEIC'', ''b.heic''] \<and>
   snd (convert_heic_to_jpg (job world_no_primary ''Photos/a.HEIC'') ''Photos/a.HEIC'' ''output'' 85) =
     Return False \<and>
   jobs_of (fst (main world_no_primary)) = [''Photos/a.HEIC'', ''Photos/b.heic''] \<and>
   opendir world_ok ''Photos'' = Some [''a.HEIC'', ''b.heic'', ''c.txt''] \<and>
   jobs_of (fst (main world_ok)) = [''Photos/a.HEIC'', ''Photos/b.heic''] \<and>
   opendir world_fatal_first ''Photos'' = Some [''a.HEIC'', ''b.heic'', ''c.txt''] \<and>
   jobs_of (fst (main world_fatal_first)) = [''Photos/a.HEIC'']"
proof -
  have reach: "scanf world_no_primary = Some 85 \<and>
      1 \<le> scanf_stores 85 \<and> scanf_stores 85 \<le> 100 \<and>
      (stat world_no_primary ''output'' \<noteq> None \<or> mkdir world_no_primary ''output'' 493) \<and>
      opendir world_no_primary ''Photos'' = Some [''a.HEIC'', ''b.heic'']"
    "scanf world_ok = Some 85 \<and>
      1 \<le> scanf_stores 85 \<and> scanf_stores 85 \<le> 100 \<and>
      (stat world_ok ''output'' \<noteq> None \<or> mkdir world_ok ''output'' 493) \<and>
      opendir world_ok ''Photos'' = Some [''a.HEIC'', ''b.heic'', ''c.txt'']"
    "scanf world_fatal_first = Some 85 \<and>
      1 \<le> scanf_stores 85 \<and> scanf_stores 85 \<le> 100 \<and>
      (stat world_fatal_first ''output'' \<noteq> None \<or> mkdir world_fatal_first ''output'' 493) \<and>
      opendir world_fatal_first ''Photos'' = Some [''a.HEIC'', ''b.heic'', ''c.txt'']"
    by code_simp+
  have selected: "map fst (upto_first_failure
      (map (\<lambda>d_name.
              (snprintf MAX_PATH (''Photos'' @ ''/'' @ d_name),
               conversion_returns (job world_no_primary (snprintf MAX_PATH (''Photos'' @ ''/'' @ d_name)))
                 (snprintf MAX_PATH (''Photos'' @ ''/'' @ d_name)) ''output'' (scanf_stores 85)))
         (filter has_heic_extension [''a.HEIC'', ''b.heic'']))) =
      [''Photos/a.HEIC'', ''Photos/b.heic'']"
    "map fst (upto_first_failure
      (map (\<lambda>d_name.
              (snprintf MAX_PATH (''Photos'' @ ''/'' @ d_name),
               conversion_returns (job world_ok (snprintf MAX_PATH (''Photos'' @ ''/'' @ d_name)))
                 (snprintf MAX_PATH (''Photos'' @ ''/'' @ d_name)) ''output'' (scanf_stores 85)))
         (filter has_heic_extension [''a.HEIC'', ''b.heic'', ''c.txt'']))) =
      [''Photos/a.HEIC'', ''Photos/b.heic'']"
    "map fst (upto_first_failure
      (map (\<lambda>d_name.
              (snprintf MAX_PATH (''Photos'' @ ''/'' @ d_name),
               conversion_returns (job world_fatal_first (snprintf MAX_PATH (''Photos'' @ ''/'' @ d_name)))
                 (snprintf MAX_PATH (''Photos'' @ ''/'' @ d_name)) ''output'' (scanf_stores 85)))
         (filter has_heic_extension [''a.HEIC'', ''b.heic'', ''c.txt'']))) =
      [''Photos/a.HEIC'']"
    by code_simp+
  have failed: "snd (convert_heic_to_jpg (job world_no_primary ''Photos/a.HEIC'') ''Photos/a.HEIC''
      ''output'' 85) = Return False"
    by code_simp
  from driver_selects_heic_entries [of _ world_no_primary, THEN conjunct2, rule_format,
      OF reach(1), THEN conjunct1]
  have j1: "jobs_of (fst (main world_no_primary)) = [''Photos/a.HEIC'', ''Photos/b.heic'']"
    by (simp only: selected)
  from driver_selects_heic_entries [of _ world_ok, THEN conjunct2, rule_format,
      OF reach(2), THEN conjunct1]
  have j2: "jobs_of (fst (main world_ok)) = [''Photos/a.HEIC'', ''Photos/b.heic'']"
    by (simp only: selected)
  from driver_selects_heic_entries [of _ world_fatal_first, THEN conjunct2, rule_format,
      OF reach(3), THEN conjunct1]
  have j3: "jobs_of (fst (main world_fatal_first)) = [''Photos/a.HEIC'']"
    by (simp only: selected)
  from reach failed j1 j2 j3 show ?thesis
    by (simp only: simp_thms)
qed

subsection \<open>Claim C6: the output file name\<close>



subsection \<open>Claim C7: release of the resources\<close>

text \<open>
  Claim C7 says that on every exit path, a failure at any step included, each acquired
  resource is released exactly once. When a row cannot be written, the five resources have
  been acquired and control leaves the function through libjpeg's \<^verbatim>\<open>error_exit\<close>:
  \<^verbatim>\<open>cleanup_context\<close> is not reached and the program releases nothing.
\<close>

theorem convert_error_exit_releases_nothing:
  "snd (convert_heic_to_jpg job_scanline_fails ''Photos/a.HEIC'' ''output'' 85) = Error_exit \<and>
   acquired (fst (convert_heic_to_jpg job_scanline_fails ''Photos/a.HEIC'' ''output'' 85)) =
     [Jpeg_compress_state, Heif_context, Image_handle, Decoded_image, Output_file] \<and>
   released (fst (convert_heic_to_jpg job_scanline_fails ''Photos/a.HEIC'' ''output'' 85)) = []"
  by code_simp

text \<open>
  Claim C7, amended. On every path on which \<^verbatim>\<open>convert_heic_to_jpg\<close> returns, with
  either value: the resources released are the resources acquired, in the reverse order of
  their acquisition; no resource is acquired twice, so each is released exactly once and
  nothing else is released; and every release comes after every acquisition.
\<close>

theorem convert_releases_in_reverse_order:
  "snd (convert_heic_to_jpg e p d q) = Return b \<Longrightarrow>
     released (fst (convert_heic_to_jpg e p d q)) = rev (acquired (fst (convert_heic_to_jpg e p d q))) \<and>
     distinct (acquired (fst (convert_heic_to_jpg e p d q))) \<and>
     (\<exists>t1 t2. fst (convert_heic_to_jpg e p d q) = t1 @ t2 \<and> released t1 = [] \<and> acquired t2 = [])"
proof (cases rule: convert_cases [of e p d q])
  case create_fail
  assume "snd (convert_heic_to_jpg e p d q) = Return b"
  with create_fail show ?thesis by simp
next
  case alloc_fail
  show ?thesis
    unfolding alloc_fail(3) fst_conv by (intro conjI split_trace) simp_all
next
  case read_fail
  show ?thesis
    unfolding read_fail(4) fst_conv by (intro conjI split_trace) simp_all
next
  case handle_fail
  show ?thesis
    unfolding handle_fail(5) fst_conv by (intro conjI split_trace) simp_all
next
  case decode_fail
  show ?thesis
    unfolding decode_fail(6) fst_conv by (intro conjI split_trace) simp_all
next
  case no_dot
  assume "snd (convert_heic_to_jpg e p d q) = Return b"
  with no_dot show ?thesis by simp
next
  case (fopen_fail fn)
  show ?thesis
    unfolding fopen_fail(8) fst_conv by (intro conjI split_trace) simp_all
next
  case (encoder_fail fn)
  assume "snd (convert_heic_to_jpg e p d q) = Return b"
  with encoder_fail show ?thesis by simp
next
  case (success fn)
  show ?thesis
    unfolding success(9) fst_conv by (intro conjI split_trace) (simp_all add: encode_trace)
qed

theorem convert_releases_in_reverse_order_witness:
  "snd (convert_heic_to_jpg job_ok ''Photos/a.HEIC'' ''output'' 85) = Return True \<and>
   acquired (fst (convert_heic_to_jpg job_ok ''Photos/a.HEIC'' ''output'' 85)) =
     [Jpeg_compress_state, Heif_context, Image_handle, Decoded_image, Output_file] \<and>
   released (fst (convert_heic_to_jpg job_ok ''Photos/a.HEIC'' ''output'' 85)) =
     [Output_file, Decoded_image, Image_handle, Heif_context, Jpeg_compress_state] \<and>
   snd (convert_heic_to_jpg job_decode_fails ''Photos/a.HEIC'' ''output'' 85) = Return False \<and>
   acquired (fst (convert_heic_to_jpg job_decode_fails ''Photos/a.HEIC'' ''output'' 85)) =
     [Jpeg_compress_state, Heif_context, Image_handle] \<and>
   released (fst (convert_heic_to_jpg job_decode_fails ''Photos/a.HEIC'' ''output'' 85)) =
     [Image_handle, Heif_context, Jpeg_compress_state]"
proof -
  have returns: "snd (convert_heic_to_jpg job_ok ''Photos/a.HEIC'' ''output'' 85) = Return True"
    "snd (convert_heic_to_jpg job_decode_fails ''Photos/a.HEIC'' ''output'' 85) = Return False"
    by code_simp+
  have "acquired (fst (convert_heic_to_jpg job_ok ''Photos/a.HEIC'' ''output'' 85)) =
      [Jpeg_compress_state, Heif_context, Image_handle, Decoded_image, Output_file]"
    "acquired (fst (convert_heic_to_jpg job_decode_fails ''Photos/a.HEIC'' ''output'' 85)) =
      [Jpeg_compress_state, Heif_context, Image_handle]"
    by code_simp+
  with convert_releases_in_reverse_order [OF returns(1)]
    convert_releases_in_reverse_order [OF returns(2)] returns
  show ?thesis
    by simp
qed

subsection \<open>Claim C8: accepted names have a dot\<close>

text \<open>
  Claim C8. Every name accepted by \<^verbatim>\<open>has_heic_extension\<close> contains a dot. For every
  accepted name that \<^verbatim>\<open>readdir\<close> can return (at most \<^verbatim>\<open>NAME_MAX\<close> bytes), the base
  name of the input path the driver builds contains a dot: \<^verbatim>\<open>strrchr(base_name, '.')\<close> is
  not NULL, the difference of the two pointers is the length of the stem, which is not
  negative and survives the conversion to \<^verbatim>\<open>int\<close>, and the output file name is defined.
  Hence a run over a directory whose names have at most \<^verbatim>\<open>NAME_MAX\<close> bytes never
  executes the undefined subtraction.
\<close>

theorem accepted_names_have_a_dot:
  "(has_heic_extension d_name \<longrightarrow> CHR ''.'' \<in> set d_name) \<and>
   (has_heic_extension d_name \<and> length d_name \<le> NAME_MAX \<longrightarrow>
      (\<exists>stem ext.
         base_name_of (snprintf MAX_PATH (''Photos'' @ ''/'' @ d_name)) = stem @ ext \<and>
         strrchr (base_name_of (snprintf MAX_PATH (''Photos'' @ ''/'' @ d_name))) (CHR ''.'') =
           Some ext \<and>
         int_cast (int (length (stem @ ext)) - int (length ext)) = int (length stem)) \<and>
      output_filename_of (snprintf MAX_PATH (''Photos'' @ ''/'' @ d_name)) output_dir \<noteq> None) \<and>
   ((\<forall>entries. opendir w ''Photos'' = Some entries \<longrightarrow>
        (\<forall>name\<in>set entries. length name \<le> NAME_MAX)) \<longrightarrow>
      snd (main w) \<noteq> Undefined_behaviour)"
proof (intro conjI impI)
  assume "has_heic_extension d_name"
  then show "CHR ''.'' \<in> set d_name"
    by (auto simp: has_heic_extension_iff)
next
  assume a: "has_heic_extension d_name \<and> length d_name \<le> NAME_MAX"
  let ?base = "base_name_of (snprintf MAX_PATH (''Photos'' @ ''/'' @ d_name))"
  from a accepted_name_base_name [of d_name] obtain stem ext
    where base: "?base = stem @ CHR ''.'' # ext" and dot: "CHR ''.'' \<notin> set ext"
      and len: "length stem < 1024"
    by blast
  from dot have "strrchr (stem @ CHR ''.'' # ext) (CHR ''.'') = Some (CHR ''.'' # ext)"
    by (rule strrchr_last_occurrence)
  moreover have "int_cast (int (length (stem @ CHR ''.'' # ext)) - int (length (CHR ''.'' # ext))) =
      int (length stem)"
    using len by (simp add: int_cast_small)
  ultimately have "?base = stem @ CHR ''.'' # ext \<and>
      strrchr ?base (CHR ''.'') = Some (CHR ''.'' # ext) \<and>
      int_cast (int (length (stem @ CHR ''.'' # ext)) - int (length (CHR ''.'' # ext))) =
        int (length stem)"
    by (simp only: base simp_thms)
  then show "\<exists>stem ext. ?base = stem @ ext \<and> strrchr ?base (CHR ''.'') = Some ext \<and>
      int_cast (int (length (stem @ ext)) - int (length ext)) = int (length stem)"
    by (intro exI)
next
  assume "has_heic_extension d_name \<and> length d_name \<le> NAME_MAX"
  then have "has_heic_extension d_name" and "length d_name \<le> NAME_MAX"
    by (rule conjunct1, rule conjunct2)
  then show "output_filename_of (snprintf MAX_PATH (''Photos'' @ ''/'' @ d_name)) output_dir \<noteq> None"
    by (rule accepted_name_output_filename)
next
  assume a: "\<forall>entries. opendir w ''Photos'' = Some entries \<longrightarrow>
      (\<forall>name\<in>set entries. length name \<le> NAME_MAX)"
  show "snd (main w) \<noteq> Undefined_behaviour"
  proof (cases rule: main_cases [of w])
    case (loop_undefined typed entries)
    with a have "\<forall>name\<in>set entries. length name \<le> NAME_MAX"
      by simp
    then have "snd (batch_loop w entries (scanf_stores typed) 0) \<noteq> Undefined_behaviour"
      by (rule batch_loop_defined)
    with loop_undefined show ?thesis
      by simp
  qed simp_all
qed

theorem accepted_names_have_a_dot_witness:
  "has_heic_extension ''a.HEIC'' \<and> length ''a.HEIC'' \<le> NAME_MAX \<and>
   CHR ''.'' \<in> set ''a.HEIC'' \<and>
   output_filename_of (snprintf MAX_PATH (''Photos'' @ ''/'' @ ''a.HEIC'')) ''output'' \<noteq> None \<and>
   snd (main world_ok) \<noteq> Undefined_behaviour"
proof -
  have a: "has_heic_extension ''a.HEIC''" "length ''a.HEIC'' \<le> NAME_MAX"
    by code_simp+
  have b: "\<forall>entries. opendir world_ok ''Photos'' = Some entries \<longrightarrow>
      (\<forall>name\<in>set entries. length name \<le> NAME_MAX)"
    by (simp add: world_ok_def NAME_MAX_def)
  from accepted_names_have_a_dot [of "''a.HEIC''" "''output''" world_ok] a b show ?thesis
    by (simp only: simp_thms)
qed

subsection \<open>Claim C9: an early failure does not touch the output directory\<close>

text \<open>
  Claim C9. When a conversion reaches the HEIF steps and context allocation, container read,
  primary image handle lookup or decode fails, it returns false and its trace holds no call
  that opens, writes or closes an output file. In every conversion, a call of
  \<^verbatim>\<open>fopen\<close> comes after a successful \<^verbatim>\<open>heif_decode_image\<close>.
\<close>

theorem convert_early_failure_leaves_output_untouched:
  "(jpeg_returns e Jpeg_create_compress \<and>
    \<not> (heif_context_alloc e \<and> heif_context_read_from_file e \<and>
       heif_context_get_primary_image_handle e \<and> heif_decode_image e) \<longrightarrow>
      snd (convert_heic_to_jpg e p d q) = Return False \<and>
      filter touches_output (fst (convert_heic_to_jpg e p d q)) = []) \<and>
   (\<forall>fn ok. Call (Fopen fn) ok \<in> set (fst (convert_heic_to_jpg e p d q)) \<longrightarrow>
      Call Heif_decode_image True \<in>
        set (takeWhile (\<lambda>ev. ev \<noteq> Call (Fopen fn) ok) (fst (convert_heic_to_jpg e p d q))))"
proof (cases rule: convert_cases [of e p d q])
  case create_fail
  then show ?thesis by simp
next
  case alloc_fail
  then show ?thesis by simp
next
  case read_fail
  then show ?thesis by simp
next
  case handle_fail
  then show ?thesis by simp
next
  case decode_fail
  then show ?thesis by simp
next
  case no_dot
  then show ?thesis by simp
next
  case (fopen_fail fn)
  then show ?thesis by simp
next
  case (encoder_fail fn)
  then show ?thesis by auto
next
  case (success fn)
  then show ?thesis by auto
qed

theorem convert_early_failure_leaves_output_untouched_witness:
  "jpeg_returns job_decode_fails Jpeg_create_compress \<and>
   \<not> heif_decode_image job_decode_fails \<and>
   snd (convert_heic_to_jpg job_decode_fails ''Photos/a.HEIC'' ''output'' 85) = Return False \<and>
   filter touches_output
     (fst (convert_heic_to_jpg job_decode_fails ''Photos/a.HEIC'' ''output'' 85)) = [] \<and>
   Call (Fopen ''output/a.jpg'') True \<in>
     set (fst (convert_heic_to_jpg job_ok ''Photos/a.HEIC'' ''output'' 85)) \<and>
   Call Heif_decode_image True \<in>
     set (takeWhile (\<lambda>ev. ev \<noteq> Call (Fopen ''output/a.jpg'') True)
       (fst (convert_heic_to_jpg job_ok ''Photos/a.HEIC'' ''output'' 85)))"
proof -
  have early: "jpeg_returns job_decode_fails Jpeg_create_compress"
    "\<not> heif_decode_image job_decode_fails"
    by (simp_all add: job_decode_fails_def job_ok_def)
  have opened: "Call (Fopen ''output/a.jpg'') True \<in>
      set (fst (convert_heic_to_jpg job_ok ''Photos/a.HEIC'' ''output'' 85))"
    by code_simp
  from convert_early_failure_leaves_output_untouched
      [of job_decode_fails "''Photos/a.HEIC''" "''output''" 85] early
  have "snd (convert_heic_to_jpg job_decode_fails ''Photos/a.HEIC'' ''output'' 85) = Return False \<and>
      filter touches_output
        (fst (convert_heic_to_jpg job_decode_fails ''Photos/a.HEIC'' ''output'' 85)) = []"
    by (simp only: simp_thms)
  moreover from convert_early_failure_leaves_output_untouched
      [of job_ok "''Photos/a.HEIC''" "''output''" 85, THEN conjunct2, rule_format, OF opened]
  have "Call Heif_decode_image True \<in>
      set (takeWhile (\<lambda>ev. ev \<noteq> Call (Fopen ''output/a.jpg'') True)
        (fst (convert_heic_to_jpg job_ok ''Photos/a.HEIC'' ''output'' 85)))" .
  ultimately show ?thesis
    using early opened by (simp only: simp_thms)
qed

subsection \<open>Claim C10: \<^verbatim>\<open>ensure_directory\<close> accepts any existing entry\<close>

text \<open>
  Claim C10. \<^verbatim>\<open>ensure_directory\<close> returns success whenever \<^verbatim>\<open>stat\<close> succeeds on
  the path, whatever the type of the entry, and then makes no other call; \<^verbatim>\<open>mkdir\<close>
  with mode \<^verbatim>\<open>0755\<close> is called only when \<^verbatim>\<open>stat\<close> fails, and its result is the
  result. So with a valid quality and a regular file named \<^verbatim>\<open>output\<close>, the call after
  \<^verbatim>\<open>stat\<close> is \<^verbatim>\<open>opendir\<close> on \<^verbatim>\<open>Photos\<close>: the program goes past the set-up of the
  output directory.
\<close>

theorem ensure_directory_accepts_any_entry:
  "(\<forall>k. stat w path = Some k \<longrightarrow> ensure_directory w path = ([Call (Stat path) True], True)) \<and>
   (stat w path = None \<longrightarrow>
      ensure_directory w path =
        ([Call (Stat path) False, Call (Mkdir path 493) (mkdir w path 493)], mkdir w path 493)) \<and>
   (\<forall>q. scanf w = Some q \<and> 1 \<le> q \<and> q \<le> 100 \<and> stat w ''output'' = Some Regular_file \<longrightarrow>
      take 5 (fst (main w)) =
        [Stdout ''Enter JPEG quality (1-100, recommended 75-95): '',
         Call Scanf True,
         Stdout (''Using JPEG quality: '' @ show_int q @ ''\<newline>''),
         Call (Stat ''output'') True,
         Call (Opendir ''Photos'') (opendir w ''Photos'' \<noteq> None)])"
proof (intro conjI allI impI)
  fix k
  assume "stat w path = Some k"
  then show "ensure_directory w path = ([Call (Stat path) True], True)"
    by (simp add: ensure_directory_def)
next
  assume "stat w path = None"
  then show "ensure_directory w path =
        ([Call (Stat path) False, Call (Mkdir path 493) (mkdir w path 493)], mkdir w path 493)"
    by (simp add: ensure_directory_def)
next
  fix q
  assume a: "scanf w = Some q \<and> 1 \<le> q \<and> q \<le> 100 \<and> stat w ''output'' = Some Regular_file"
  then have ens: "fst (ensure_directory w ''output'') = [Call (Stat ''output'') True]"
    by (simp add: ensure_directory_def)
  from a have stored: "scanf_stores q = q"
    by (simp add: scanf_stores_fits)
  show "take 5 (fst (main w)) =
        [Stdout ''Enter JPEG quality (1-100, recommended 75-95): '',
         Call Scanf True,
         Stdout (''Using JPEG quality: '' @ show_int q @ ''\<newline>''),
         Call (Stat ''output'') True,
         Call (Opendir ''Photos'') (opendir w ''Photos'' \<noteq> None)]"
    by (cases rule: main_cases [of w]) (use a ens stored in \<open>auto simp: invalid_quality_def\<close>)
qed

theorem ensure_directory_accepts_any_entry_witness:
  "stat world_output_is_file ''output'' = Some Regular_file \<and>
   ensure_directory world_output_is_file ''output'' = ([Call (Stat ''output'') True], True) \<and>
   stat world_ok ''Photos'' = None \<and>
   ensure_directory world_ok ''Photos'' =
     ([Call (Stat ''Photos'') False, Call (Mkdir ''Photos'' 493) False], False) \<and>
   take 5 (fst (main world_output_is_file)) =
     [Stdout ''Enter JPEG quality (1-100, recommended 75-95): '',
      Call Scanf True,
      Stdout ''Using JPEG quality: 85\<newline>'',
      Call (Stat ''output'') True,
      Call (Opendir ''Photos'') True]"
proof -
  have a: "stat world_output_is_file ''output'' = Some Regular_file"
    "stat world_ok ''Photos'' = None"
    "scanf world_output_is_file = Some 85 \<and> (1::int) \<le> 85 \<and> (85::int) \<le> 100 \<and>
       stat world_output_is_file ''output'' = Some Regular_file"
    by (simp_all add: world_output_is_file_def world_ok_def)
  have b: "mkdir world_ok ''Photos'' 493 = False" "opendir world_output_is_file ''Photos'' \<noteq> None"
    "show_int 85 = ''85''"
    by code_simp+
  from ensure_directory_accepts_any_entry [of world_output_is_file "''output''"]
    ensure_directory_accepts_any_entry [of world_ok "''Photos''"] a b
  show ?thesis
    by simp
qed

end
